theory Spec2Isabelle
  imports Complex_Main "HOL-Library.AList" "HOL-Library.Sublist" "HOL-Library.Word"
begin

section \<open>JavaScript values\<close>

text \<open>
  Times are milliseconds since the epoch, as \<open>Date.now()\<close> and the difference of two
  \<open>Date\<close> objects give them. A value that may be \<open>null\<close> or \<open>undefined\<close> is an
  option. The reads of the clock that one synchronous stretch of a function makes are
  passed in as one argument \<open>now\<close>.
\<close>

type_synonym time = int

text \<open>Truthiness of a string-or-null value: \<open>null\<close>, \<open>undefined\<close> and \<open>""\<close> are falsy.\<close>

definition truthy :: "string option \<Rightarrow> bool" where
  "truthy v = (case v of None \<Rightarrow> False | Some s \<Rightarrow> s \<noteq> [])"

text \<open>The idiom \<open>v || d\<close> on such a value.\<close>

definition or_default :: "string option \<Rightarrow> string \<Rightarrow> string" where
  "or_default v d = (case v of None \<Rightarrow> d | Some s \<Rightarrow> if s = [] then d else s)"

section \<open>Data model (sessionManager.js)\<close>

record participant =
  name :: "string option"
  socketId :: "string option"
  joinedAt :: "time option"

record session_metadata =
  createdAt :: time
  lastActivity :: time
  meta_recordingStartTime :: "time option"
  meta_recordingEndTime :: "time option"
  endedAt :: "time option"

record transcript_entry =
  entry_id :: int
  entry_speaker :: string
  entry_speakerName :: string
  entry_text :: string
  entry_timestamp :: time
  entry_confidence :: real

text \<open>The generated clinical document is opaque to the session layer.\<close>

datatype mer_document = MerDocument string

text \<open>
  The session object. \<open>recordingStartTime\<close> and \<open>recordingEndTime\<close> are the
  properties the socket handlers add to the session itself; the fields of the same name
  inside \<open>metadata\<close> are \<open>meta_recordingStartTime\<close> and \<open>meta_recordingEndTime\<close>.
  \<open>status\<close> is a free string in the source: the handlers store values outside the
  documented three.
\<close>

record session =
  session_id :: string
  doctor :: participant
  patient :: participant
  status :: string
  transcript :: "transcript_entry list"
  isRecording :: bool
  merDocument :: "mer_document option"
  metadata :: session_metadata
  recordingStartTime :: "time option"
  recordingEndTime :: "time option"

text \<open>
  The two module-level \<open>Map\<close>s. A JavaScript \<open>Map\<close> keeps its keys distinct and
  in insertion order; \<open>set\<close> on a present key keeps its position. That is an
  association list under \<open>AList.update\<close> and \<open>AList.delete\<close>. The sessions are
  objects shared by reference between the map and the handlers; every handler segment
  below runs without suspension, so the object a handler holds is the map's entry.
\<close>

record server_state =
  activeSessions :: "(string \<times> session) list"
  sessionUsers :: "(string \<times> string) list"

definition initial_state :: server_state where
  "initial_state = \<lparr>activeSessions = [], sessionUsers = []\<rparr>"

definition new_session :: "time \<Rightarrow> string \<Rightarrow> string option \<Rightarrow> string option \<Rightarrow> session" where
  "new_session now sessionId doctorName patientName =
     \<lparr>session_id = sessionId,
      doctor = \<lparr>name = doctorName, socketId = None, joinedAt = None\<rparr>,
      patient = \<lparr>name = patientName, socketId = None, joinedAt = None\<rparr>,
      status = ''waiting'',
      transcript = [],
      isRecording = False,
      merDocument = None,
      metadata = \<lparr>createdAt = now, lastActivity = now,
                  meta_recordingStartTime = None, meta_recordingEndTime = None,
                  endedAt = None\<rparr>,
      recordingStartTime = None,
      recordingEndTime = None\<rparr>"

section \<open>SessionManager\<close>

text \<open>\<open>createSession\<close>: the identifier is the \<open>uuidv4()\<close> draw, passed in.\<close>

definition createSession ::
  "time \<Rightarrow> string \<Rightarrow> string option \<Rightarrow> string option \<Rightarrow> server_state \<Rightarrow> session \<times> server_state" where
  "createSession now uuid doctorName patientName st =
     (let s = new_session now uuid doctorName patientName
      in (s, st\<lparr>activeSessions := AList.update uuid s (activeSessions st)\<rparr>))"

definition getSession :: "string \<Rightarrow> server_state \<Rightarrow> session option" where
  "getSession sessionId st = map_of (activeSessions st) sessionId"

definition createOrGetSession ::
  "time \<Rightarrow> string \<Rightarrow> string option \<Rightarrow> string option \<Rightarrow> server_state \<Rightarrow> session \<times> server_state" where
  "createOrGetSession now sessionId doctorName patientName st =
     (case map_of (activeSessions st) sessionId of
        Some s \<Rightarrow> (s, st)
      | None \<Rightarrow>
          (let s = new_session now sessionId doctorName patientName
           in (s, st\<lparr>activeSessions := AList.update sessionId s (activeSessions st)\<rparr>)))"

text \<open>\<open>session[userRole]\<close> for a role that is \<open>'doctor'\<close> or \<open>'patient'\<close>.\<close>

definition update_slot :: "string \<Rightarrow> (participant \<Rightarrow> participant) \<Rightarrow> session \<Rightarrow> session" where
  "update_slot role f s =
     (if role = ''doctor'' then s\<lparr>doctor := f (doctor s)\<rparr> else s\<lparr>patient := f (patient s)\<rparr>)"

text \<open>
  \<open>addUserToSession\<close>, with its work on the session object as \<open>attach_slot\<close>: an
  unknown role is coerced to \<open>'patient'\<close>; the slot's
  connection and join time are set, the connection is recorded in \<open>sessionUsers\<close>,
  and the status becomes \<open>'active'\<close> when both slots are truthy. There is no other
  assignment to the status here. (Both slots exist in every session this module
  builds, so the branch that creates a missing slot object is not taken.)
\<close>

definition attach_slot :: "time \<Rightarrow> string \<Rightarrow> string \<Rightarrow> session \<Rightarrow> session" where
  "attach_slot now userRole sock s =
     (let role = (if userRole \<in> set [''doctor'', ''patient''] then userRole else ''patient'');
          s1 = update_slot role (\<lambda>p. p\<lparr>socketId := Some sock, joinedAt := Some now\<rparr>) s;
          s2 = s1\<lparr>metadata := (metadata s1)\<lparr>lastActivity := now\<rparr>\<rparr>
      in if truthy (socketId (doctor s2)) \<and> truthy (socketId (patient s2))
         then s2\<lparr>status := ''active''\<rparr> else s2)"

definition addUserToSession ::
  "time \<Rightarrow> string \<Rightarrow> string \<Rightarrow> string \<Rightarrow> server_state \<Rightarrow> session option \<times> server_state" where
  "addUserToSession now sessionId userRole sock st =
     (case map_of (activeSessions st) sessionId of
        None \<Rightarrow> (None, st)
      | Some s \<Rightarrow>
          (let s' = attach_slot now userRole sock s
           in (Some s',
               st\<lparr>activeSessions := AList.update sessionId s' (activeSessions st),
                  sessionUsers := AList.update sock sessionId (sessionUsers st)\<rparr>)))"

text \<open>The \<open>forEach\<close> over the two roles in \<open>removeUserFromSession\<close>.\<close>

definition clear_slot :: "string \<Rightarrow> participant \<Rightarrow> participant" where
  "clear_slot sock p =
     (if socketId p = Some sock then p\<lparr>socketId := None, joinedAt := None\<rparr> else p)"

text \<open>
  \<open>removeUserFromSession\<close>, with its work on the session object as
  \<open>detach_slot\<close>: nothing happens unless the connection is tracked (with a
  truthy session id) and its session is registered. Otherwise every slot holding the
  connection is cleared, the tracking entry is deleted, and the status becomes
  \<open>'ended'\<close> when neither slot is truthy.
\<close>

definition detach_slot :: "time \<Rightarrow> string \<Rightarrow> session \<Rightarrow> session" where
  "detach_slot now sock s =
     (let s1 = s\<lparr>doctor := clear_slot sock (doctor s)\<rparr>;
          s2 = s1\<lparr>patient := clear_slot sock (patient s1)\<rparr>;
          s3 = s2\<lparr>metadata := (metadata s2)\<lparr>lastActivity := now\<rparr>\<rparr>
      in if \<not> truthy (socketId (doctor s3)) \<and> \<not> truthy (socketId (patient s3))
         then s3\<lparr>status := ''ended''\<rparr> else s3)"

definition removeUserFromSession ::
  "time \<Rightarrow> string \<Rightarrow> server_state \<Rightarrow> (string \<times> session) option \<times> server_state" where
  "removeUserFromSession now sock st =
     (case map_of (sessionUsers st) sock of
        None \<Rightarrow> (None, st)
      | Some sessionId \<Rightarrow>
          if sessionId = [] then (None, st)
          else
            (case map_of (activeSessions st) sessionId of
               None \<Rightarrow> (None, st)
             | Some s \<Rightarrow>
                 (let s' = detach_slot now sock s
                  in (Some (sessionId, s'),
                      st\<lparr>activeSessions := AList.update sessionId s' (activeSessions st),
                         sessionUsers := AList.delete sock (sessionUsers st)\<rparr>))))"

definition getSessionIdBySocketId :: "string \<Rightarrow> server_state \<Rightarrow> string option" where
  "getSessionIdBySocketId sock st = map_of (sessionUsers st) sock"

text \<open>
  \<open>endSession\<close> drops the tracking entries of the connections in the slots (when
  truthy), sets the status and stamps \<open>endedAt\<close>; it leaves the slots as they are.
\<close>

definition untrack :: "string option \<Rightarrow> (string \<times> string) list \<Rightarrow> (string \<times> string) list" where
  "untrack v users =
     (case v of None \<Rightarrow> users | Some sock \<Rightarrow> if sock = [] then users else AList.delete sock users)"

definition endSession :: "time \<Rightarrow> string \<Rightarrow> server_state \<Rightarrow> session option \<times> server_state" where
  "endSession now sessionId st =
     (case map_of (activeSessions st) sessionId of
        None \<Rightarrow> (None, st)
      | Some s \<Rightarrow>
          (let users1 = untrack (socketId (doctor s)) (sessionUsers st);
               users2 = untrack (socketId (patient s)) users1;
               s1 = s\<lparr>status := ''ended''\<rparr>;
               s2 = s1\<lparr>metadata := (metadata s1)\<lparr>endedAt := Some now\<rparr>\<rparr>
           in (Some s2,
               st\<lparr>activeSessions := AList.update sessionId s2 (activeSessions st),
                  sessionUsers := users2\<rparr>)))"

text \<open>
  \<open>addTranscriptEntry\<close> pushes \<open>{id: Date.now(), ...entry, timestamp: new Date()}\<close>:
  an \<open>id\<close> in the given entry wins over the clock, the timestamp is always the clock.
\<close>

record entry_fields =
  ef_id :: "int option"
  ef_speaker :: string
  ef_speakerName :: string
  ef_text :: string
  ef_confidence :: real

definition addTranscriptEntry :: "time \<Rightarrow> string \<Rightarrow> entry_fields \<Rightarrow> server_state \<Rightarrow> bool \<times> server_state" where
  "addTranscriptEntry now sessionId e st =
     (case map_of (activeSessions st) sessionId of
        None \<Rightarrow> (False, st)
      | Some s \<Rightarrow>
          (let entry = \<lparr>entry_id = (case ef_id e of Some i \<Rightarrow> i | None \<Rightarrow> now),
                        entry_speaker = ef_speaker e,
                        entry_speakerName = ef_speakerName e,
                        entry_text = ef_text e,
                        entry_timestamp = now,
                        entry_confidence = ef_confidence e\<rparr>;
               s1 = s\<lparr>transcript := transcript s @ [entry]\<rparr>;
               s2 = s1\<lparr>metadata := (metadata s1)\<lparr>lastActivity := now\<rparr>\<rparr>
           in (True, st\<lparr>activeSessions := AList.update sessionId s2 (activeSessions st)\<rparr>)))"

text \<open>
  \<open>cleanupOldSessions\<close>: the loop over \<open>activeSessions.entries()\<close>, deleting from
  the map while it iterates (a \<open>Map\<close> iterator visits every entry that is still
  there, and the loop deletes only the entry it is at). The age is taken from
  \<open>metadata.createdAt\<close>.
\<close>

definition cleanup_step ::
  "time \<Rightarrow> int \<Rightarrow> string \<times> session \<Rightarrow> (string \<times> session) list \<times> nat \<Rightarrow> (string \<times> session) list \<times> nat" where
  "cleanup_step now maxAge e acc =
     (let age = now - createdAt (metadata (snd e))
      in if age > maxAge \<and> status (snd e) = ''ended''
         then (AList.delete (fst e) (fst acc), snd acc + 1)
         else acc)"

definition cleanupOldSessions :: "time \<Rightarrow> int \<Rightarrow> server_state \<Rightarrow> nat \<times> server_state" where
  "cleanupOldSessions now maxAgeHours st =
     (let maxAge = maxAgeHours * 60 * 60 * 1000;
          r = fold (cleanup_step now maxAge) (activeSessions st) (activeSessions st, 0)
      in (snd r, st\<lparr>activeSessions := fst r\<rparr>))"

section \<open>Socket handlers (socketHandlers.js)\<close>

text \<open>
  What a handler receives: the connection (\<open>socket.id\<close>), the payload, and the clock.
  What it produces: the new registry and the events it emits, in order, each with its
  Socket.IO address: \<open>socket.emit\<close> (the connection itself), \<open>socket.to(room)\<close> (the
  room without the sender) or \<open>io.to(room)\<close> (a room; every connection is alone in the
  room named by its own id). Which connections are members of a room is the library's
  state and is not part of this model.
\<close>

datatype js_error = ReferenceError string | TypeError string | Error string

record command_data =
  d_sessionId :: "string option"
  d_userRole :: "string option"
  d_userName :: "string option"
  d_customInstructions :: "string option"

record other_user =
  ou_userRole :: string
  ou_userName :: "string option"
  ou_isConnected :: bool

record participant_summary =
  ps_name :: "string option"
  ps_isConnected :: bool

record session_joined =
  sj_sessionId :: string
  sj_userRole :: string
  sj_otherUsers :: "other_user list"
  sj_doctor :: participant_summary
  sj_patient :: participant_summary
  sj_transcript :: "transcript_entry list"
  sj_isRecording :: bool
  sj_status :: string

datatype event =
    ErrorEvent string
  | UserJoined string "string option" time
  | UserLeft string "string option" time
  | SessionJoined session_joined
  | RecordingStarted string time
  | RecordingStopped string "time option" "int option" nat
  | MerGenerated mer_document time
  | MerGenerationError string

datatype target = SocketEmit string | SocketTo string string | IoTo string

type_synonym emission = "target \<times> event"

text \<open>\<open>Array.prototype.slice(-n)\<close>: the last \<open>n\<close> elements, all of them when there are fewer.\<close>

definition slice_last :: "nat \<Rightarrow> 'a list \<Rightarrow> 'a list" where
  "slice_last n xs = drop (length xs - n) xs"

text \<open>
  \<open>join-session\<close>. The handler passes \<open>userName\<close> and \<open>userRole\<close> to
  \<open>createOrGetSession\<close> in the positions of \<open>doctorName\<close> and \<open>patientName\<close>.
  The name update, the \<open>otherUsers\<close> array and the \<open>session-joined\<close> payload are
  written as functions of their own. (\<open>socket.join(sessionId)\<close> changes the library's
  room membership only.)
\<close>

definition update_name :: "string \<Rightarrow> string \<Rightarrow> session \<Rightarrow> session" where
  "update_name userRole userName s =
     (if userRole = ''doctor'' \<and> \<not> truthy (name (doctor s))
      then s\<lparr>doctor := (doctor s)\<lparr>name := Some userName\<rparr>\<rparr>
      else if userRole = ''patient'' \<and> \<not> truthy (name (patient s))
      then s\<lparr>patient := (patient s)\<lparr>name := Some userName\<rparr>\<rparr>
      else s)"

definition other_users :: "string \<Rightarrow> session \<Rightarrow> other_user list" where
  "other_users userRole u =
     (if truthy (socketId (doctor u)) \<and> userRole \<noteq> ''doctor''
      then [\<lparr>ou_userRole = ''doctor'', ou_userName = name (doctor u), ou_isConnected = True\<rparr>]
      else [])
     @ (if truthy (socketId (patient u)) \<and> userRole \<noteq> ''patient''
        then [\<lparr>ou_userRole = ''patient'', ou_userName = name (patient u), ou_isConnected = True\<rparr>]
        else [])"

definition session_joined_payload :: "string \<Rightarrow> string \<Rightarrow> session \<Rightarrow> session_joined" where
  "session_joined_payload sessionId userRole u =
     \<lparr>sj_sessionId = sessionId,
      sj_userRole = userRole,
      sj_otherUsers = other_users userRole u,
      sj_doctor = \<lparr>ps_name = name (doctor u), ps_isConnected = truthy (socketId (doctor u))\<rparr>,
      sj_patient = \<lparr>ps_name = name (patient u), ps_isConnected = truthy (socketId (patient u))\<rparr>,
      sj_transcript = slice_last 20 (transcript u),
      sj_isRecording = isRecording u,
      sj_status = status u\<rparr>"

definition join_session ::
  "time \<Rightarrow> string \<Rightarrow> command_data \<Rightarrow> server_state \<Rightarrow> server_state \<times> emission list" where
  "join_session now sock d st =
     (if \<not> truthy (d_sessionId d) \<or> \<not> truthy (d_userRole d) \<or> \<not> truthy (d_userName d)
      then (st, [(SocketEmit sock, ErrorEvent ''Missing required fields'')])
      else
        (let sessionId = or_default (d_sessionId d) [];
             userRole = or_default (d_userRole d) [];
             userName = or_default (d_userName d) [];
             (s, st1) = createOrGetSession now sessionId (Some userName) (Some userRole) st;
             s' = update_name userRole userName s;
             st2 = st1\<lparr>activeSessions := AList.update sessionId s' (activeSessions st1)\<rparr>
         in case addUserToSession now sessionId userRole sock st2 of
              (None, st3) \<Rightarrow> (st3, [(SocketEmit sock, ErrorEvent ''Failed to join session'')])
            | (Some u, st3) \<Rightarrow>
                (st3,
                 [(SocketTo sock sessionId, UserJoined userRole (Some userName) now),
                  (SocketEmit sock, SessionJoined (session_joined_payload sessionId userRole u))]
                 @ map (\<lambda>ou. (SocketEmit sock,
                               UserJoined (ou_userRole ou) (ou_userName ou) now))
                     (other_users userRole u))))"

text \<open>
  The opening of the command handlers: \<open>removeUserFromSession(socket.id)\<close> to find the
  connection's session, then \<open>addUserToSession\<close> with the role the payload declares
  (\<open>dflt\<close> when it declares none). The handler goes on with the session object, which
  \<open>addUserToSession\<close> has updated in place.
\<close>

definition reattach ::
  "time \<Rightarrow> string \<Rightarrow> string \<Rightarrow> server_state \<Rightarrow> (string \<times> session) option \<times> server_state" where
  "reattach now sock userRole st =
     (case removeUserFromSession now sock st of
        (None, st1) \<Rightarrow> (None, st1)
      | (Some (sessionId, s), st1) \<Rightarrow>
          (case addUserToSession now sessionId userRole sock st1 of
             (None, st2) \<Rightarrow> (Some (sessionId, s), st2)
           | (Some s', st2) \<Rightarrow> (Some (sessionId, s'), st2)))"

text \<open>\<open>start-recording\<close>.\<close>

definition start_recording ::
  "time \<Rightarrow> string \<Rightarrow> command_data \<Rightarrow> server_state \<Rightarrow> server_state \<times> emission list" where
  "start_recording now sock d st =
     (case reattach now sock (or_default (d_userRole d) ''doctor'') st of
        (None, st1) \<Rightarrow> (st1, [])
      | (Some (sessionId, s), st1) \<Rightarrow>
          if d_userRole d \<noteq> Some ''doctor''
          then (st1, [(SocketEmit sock, ErrorEvent ''Only doctors can start recording'')])
          else
            (let s' = s\<lparr>isRecording := True, status := ''recording'',
                        recordingStartTime := Some now\<rparr>
             in (st1\<lparr>activeSessions := AList.update sessionId s' (activeSessions st1)\<rparr>,
                 [(IoTo sessionId,
                   RecordingStarted (or_default (d_userName d) ''Doctor'') now)])))"

text \<open>
  \<open>stop-recording\<close> and \<open>generate-mer\<close> suspend at
  \<open>await MERGeneratorService.generateMER(...)\<close>. Each is two functions: the part up to
  the \<open>await\<close>, which either finishes with its emissions or hands over the request
  and suspends, and the continuation, which runs on the registry as it is when the
  generator has settled, with the generator's outcome. The continuation works on the
  session object the handler holds; that is the registry's entry, or, if the entry has
  been swept during the wait, the object as it was at the suspension.
\<close>

record mer_request =
  mr_transcript :: "transcript_entry list"
  mr_sessionDuration :: "int option"
  mr_doctor :: "string option"
  mr_patient :: string
  mr_sessionId :: string
  mr_customInstructions :: "string option"

datatype handler_step =
    Finished "emission list"
  | Awaiting string session mer_request

text \<open>\<open>recordingEndTime - recordingStartTime\<close>; \<open>NaN\<close> (here \<open>None\<close>) when either is unset.\<close>

definition duration :: "session \<Rightarrow> int option" where
  "duration s =
     (case (recordingEndTime s, recordingStartTime s) of
        (Some e, Some b) \<Rightarrow> Some (e - b)
      | _ \<Rightarrow> None)"

definition recording_stopped :: "string \<Rightarrow> command_data \<Rightarrow> session \<Rightarrow> emission" where
  "recording_stopped sessionId d s =
     (IoTo sessionId,
      RecordingStopped (or_default (d_userName d) ''Doctor'') (recordingEndTime s) (duration s)
        (length (transcript s)))"

definition stop_recording_begin ::
  "time \<Rightarrow> string \<Rightarrow> command_data \<Rightarrow> server_state \<Rightarrow> server_state \<times> handler_step" where
  "stop_recording_begin now sock d st =
     (case reattach now sock (or_default (d_userRole d) ''doctor'') st of
        (None, st1) \<Rightarrow> (st1, Finished [])
      | (Some (sessionId, s), st1) \<Rightarrow>
          if d_userRole d \<noteq> Some ''doctor''
          then (st1, Finished [(SocketEmit sock, ErrorEvent ''Only doctors can stop recording'')])
          else if \<not> isRecording s
          then (st1, Finished [(SocketEmit sock,
                                ErrorEvent ''Session is not currently recording'')])
          else
            (let s' = s\<lparr>isRecording := False, status := ''completed'',
                        recordingEndTime := Some now\<rparr>;
                 st2 = st1\<lparr>activeSessions := AList.update sessionId s' (activeSessions st1)\<rparr>
             in if length (transcript s') > 0
                then (st2, Awaiting sessionId s'
                             \<lparr>mr_transcript = transcript s',
                              mr_sessionDuration = duration s',
                              mr_doctor = name (doctor s'),
                              mr_patient = or_default (name (patient s')) ''Patient'',
                              mr_sessionId = sessionId,
                              mr_customInstructions = None\<rparr>)
                else (st2, Finished [recording_stopped sessionId d s'])))"

definition held_session :: "string \<Rightarrow> session \<Rightarrow> server_state \<Rightarrow> session" where
  "held_session sessionId held st =
     (case map_of (activeSessions st) sessionId of Some s \<Rightarrow> s | None \<Rightarrow> held)"

definition store_held :: "string \<Rightarrow> session \<Rightarrow> server_state \<Rightarrow> server_state" where
  "store_held sessionId s st =
     (case map_of (activeSessions st) sessionId of
        Some _ \<Rightarrow> st\<lparr>activeSessions := AList.update sessionId s (activeSessions st)\<rparr>
      | None \<Rightarrow> st)"

definition stop_recording_resume ::
  "time \<Rightarrow> string \<Rightarrow> command_data \<Rightarrow> string \<Rightarrow> session \<Rightarrow> js_error + mer_document \<Rightarrow>
   server_state \<Rightarrow> server_state \<times> emission list" where
  "stop_recording_resume now sock d sessionId held outcome st =
     (let s = held_session sessionId held st
      in case outcome of
           Inr merDoc \<Rightarrow>
             (let s' = s\<lparr>merDocument := Some merDoc\<rparr>
              in (store_held sessionId s' st,
                  (case socketId (doctor s') of
                     Some dsock \<Rightarrow>
                       if dsock = [] then [] else [(IoTo dsock, MerGenerated merDoc now)]
                   | None \<Rightarrow> [])
                  @ [recording_stopped sessionId d s']))
         | Inl merError \<Rightarrow>
             (st,
              [(SocketEmit sock,
                MerGenerationError ''Failed to generate MER document automatically''),
               recording_stopped sessionId d s]))"

text \<open>
  The continuation of a suspended handler, on the registry as the events handled during
  the wait have left it, with the generator's outcome. A handler that has finished has
  nothing left to run.
\<close>

definition stop_recording_continue ::
  "time \<Rightarrow> string \<Rightarrow> command_data \<Rightarrow> handler_step \<Rightarrow> js_error + mer_document \<Rightarrow>
   server_state \<Rightarrow> server_state \<times> emission list" where
  "stop_recording_continue now sock d step outcome st =
     (case step of
        Finished out \<Rightarrow> (st, [])
      | Awaiting sessionId held req \<Rightarrow>
          stop_recording_resume now sock d sessionId held outcome st)"

text \<open>\<open>generate-mer\<close>.\<close>

definition generate_mer_begin ::
  "time \<Rightarrow> string \<Rightarrow> command_data \<Rightarrow> server_state \<Rightarrow> server_state \<times> handler_step" where
  "generate_mer_begin now sock d st =
     (case reattach now sock (or_default (d_userRole d) ''doctor'') st of
        (None, st1) \<Rightarrow> (st1, Finished [])
      | (Some (sessionId, s), st1) \<Rightarrow>
          if d_userRole d \<noteq> Some ''doctor''
          then (st1, Finished [(SocketEmit sock,
                                ErrorEvent ''Only doctors can generate MER documents'')])
          else if length (transcript s) = 0
          then (st1, Finished [(SocketEmit sock,
                                ErrorEvent ''No transcript available for MER generation'')])
          else (st1, Awaiting sessionId s
                       \<lparr>mr_transcript = transcript s,
                        mr_sessionDuration = None,
                        mr_doctor = name (doctor s),
                        mr_patient = or_default (name (patient s)) ''Patient'',
                        mr_sessionId = sessionId,
                        mr_customInstructions = d_customInstructions d\<rparr>))"

definition generate_mer_resume ::
  "time \<Rightarrow> string \<Rightarrow> string \<Rightarrow> session \<Rightarrow> js_error + mer_document \<Rightarrow>
   server_state \<Rightarrow> server_state \<times> emission list" where
  "generate_mer_resume now sock sessionId held outcome st =
     (let s = held_session sessionId held st
      in case outcome of
           Inr merDoc \<Rightarrow>
             (store_held sessionId (s\<lparr>merDocument := Some merDoc\<rparr>) st,
              [(SocketEmit sock, MerGenerated merDoc now)])
         | Inl err \<Rightarrow>
             (st, [(SocketEmit sock, MerGenerationError ''Failed to generate MER document'')]))"

definition generate_mer_continue ::
  "time \<Rightarrow> string \<Rightarrow> handler_step \<Rightarrow> js_error + mer_document \<Rightarrow>
   server_state \<Rightarrow> server_state \<times> emission list" where
  "generate_mer_continue now sock step outcome st =
     (case step of
        Finished out \<Rightarrow> (st, [])
      | Awaiting sessionId held req \<Rightarrow>
          generate_mer_resume now sock sessionId held outcome st)"

text \<open>\<open>disconnect\<close>.\<close>

definition disconnect :: "time \<Rightarrow> string \<Rightarrow> server_state \<Rightarrow> server_state \<times> emission list" where
  "disconnect now sock st =
     (case removeUserFromSession now sock st of
        (None, st1) \<Rightarrow> (st1, [])
      | (Some (sessionId, s), st1) \<Rightarrow>
          (let who =
                 (if \<not> truthy (socketId (doctor s)) \<and> truthy (name (doctor s))
                  then (''doctor'', name (doctor s))
                  else if \<not> truthy (socketId (patient s)) \<and> truthy (name (patient s))
                  then (''patient'', name (patient s))
                  else (''unknown'', Some ''Unknown User''));
               s' = (if \<not> truthy (socketId (doctor s)) \<and> \<not> truthy (socketId (patient s))
                     then s\<lparr>status := ''inactive''\<rparr> else s)
           in (st1\<lparr>activeSessions := AList.update sessionId s' (activeSessions st1)\<rparr>,
               [(SocketTo sock sessionId, UserLeft (fst who) (snd who) now)])))"

section \<open>Transcription service (transcriptionService.js, mockAIService.js)\<close>

type_synonym bytes = "8 word list"

record audio_chunk =
  chunk_data :: bytes
  chunk_timestamp :: time
  chunk_speaker :: "string option"

record session_buffer =
  chunks :: "audio_chunk list"
  lastProcessed :: time
  totalSize :: nat

text \<open>
  The configuration values the service reads. \<open>config.elevenlabs\<close> is read by the
  service and is not in the configuration file at hand; the keys are parameters.
\<close>

record transcription_config =
  openai_apiKey :: "string option"
  elevenlabs_apiKey :: "string option"
  assemblyai_apiKey :: "string option"
  maxAudioChunkSize :: nat
  interval :: int

text \<open>
  A transcript segment as the gateway returns it. The provider-specific extras
  (\<open>words\<close>, \<open>segments\<close>, \<open>language\<close>, ...) are passed through by the source and not
  looked at; they are left out. \<open>t_text\<close> is \<open>None\<close> for \<open>undefined\<close>.
\<close>

record transcription =
  t_text :: "string option"
  t_confidence :: real
  t_speaker :: "string option"
  t_provider :: string
  t_timestamp :: "time option"

text \<open>
  What one call of the gateway finds outside the program: the answer that
  \<open>shouldUseMockTranscription()\<close> gives in a module whose mock class defines that
  method, the index that \<open>Math.floor(Math.random() * mockTranscriptions.length)\<close>
  comes to (a computation in floating point, taken as it is), the clock, and for each
  provider what the HTTP exchange inside its adapter's \<open>try\<close> block comes to, with the
  adapter's mapping of errors applied.
\<close>

record gateway_env =
  useMockTranscription :: bool
  randomIndex :: int
  clock :: time
  openaiRequest :: "bytes \<Rightarrow> string option \<Rightarrow> js_error + transcription"
  elevenlabsRequest :: "bytes \<Rightarrow> string option \<Rightarrow> js_error + transcription"
  assemblyaiRequest :: "bytes \<Rightarrow> string option \<Rightarrow> js_error + transcription"

record service_state =
  activeProvider :: string
  audioBuffer :: "(string \<times> session_buffer) list"

text \<open>
  Identifiers and methods. The service module binds, at its top, \<open>OpenAI\<close>, \<open>axios\<close>,
  \<open>config\<close> and \<open>MockAIService\<close>, and declares the class \<open>TranscriptionService\<close>;
  \<open>MockAIService\<close> is the class that \<open>mockAIService.js\<close> exports, whose static methods
  are \<open>generateMockMER\<close>, \<open>generateMockTranscription\<close> and \<open>shouldUseMockMode\<close>.
  Reading an identifier that no enclosing scope binds raises a \<open>ReferenceError\<close>;
  calling a method that the class does not define raises a \<open>TypeError\<close>. The functions
  of the service take their module (its bindings, and the methods of the mock class) as
  an argument; the service itself is these functions at \<open>service_module\<close>.
\<close>

record js_module =
  bindings :: "string list"
  mock_methods :: "string list"

definition module_bindings :: "string list" where
  "module_bindings = [''OpenAI'', ''axios'', ''config'', ''MockAIService'', ''TranscriptionService'']"

definition mock_class_methods :: "string list" where
  "mock_class_methods = [''generateMockMER'', ''generateMockTranscription'', ''shouldUseMockMode'']"

definition service_module :: js_module where
  "service_module = \<lparr>bindings = module_bindings, mock_methods = mock_class_methods\<rparr>"

definition resolve :: "js_module \<Rightarrow> string \<Rightarrow> js_error + unit" where
  "resolve scope ident =
     (if ident \<in> set (bindings scope) then Inr ()
      else Inl (ReferenceError (ident @ '' is not defined'')))"

text \<open>
  The lookup that a call \<open>ident.method(...)\<close> on the mock class starts with: the
  identifier, then the method.
\<close>

definition lookup_method :: "js_module \<Rightarrow> string \<Rightarrow> string \<Rightarrow> js_error + unit" where
  "lookup_method scope ident method =
     (case resolve scope ident of
        Inl e \<Rightarrow> Inl e
      | Inr _ \<Rightarrow>
          if method \<in> set (mock_methods scope) then Inr ()
          else Inl (TypeError (ident @ ''.'' @ method @ '' is not a function'')))"

text \<open>\<open>arr[i]\<close> and \<open>String.prototype.includes\<close>.\<close>

definition js_index :: "'a list \<Rightarrow> int \<Rightarrow> 'a option" where
  "js_index xs i = (if 0 \<le> i \<and> i < int (length xs) then Some (xs ! nat i) else None)"

fun str_includes :: "string \<Rightarrow> string \<Rightarrow> bool" where
  "str_includes [] t = (t = [])"
| "str_includes (c # cs) t = (prefix t (c # cs) \<or> str_includes cs t)"

text \<open>\<open>MockAIService.generateMockTranscription\<close>.\<close>

definition mockTranscriptions :: "string list" where
  "mockTranscriptions =
     [''Hello, what brings you in today?'',
      ''I've been having chest pain for about three days now.'',
      ''Can you describe the pain? Is it sharp or dull?'',
      ''It's more of a burning sensation, especially after I eat.'',
      ''Any radiation to your arms or jaw?'',
      ''No, it stays right in the center of my chest.'',
      ''Have you had any shortness of breath?'',
      ''No, just the burning pain.'',
      ''Let me examine you. Your heart sounds normal.'',
      ''That's reassuring to hear.'',
      ''I think this might be acid reflux. I'll prescribe something for that.'',
      ''Thank you, doctor. When should I follow up?'']"

definition generateMockTranscription :: "gateway_env \<Rightarrow> bytes \<Rightarrow> string option \<Rightarrow> transcription" where
  "generateMockTranscription env audioChunk speaker =
     \<lparr>t_text = js_index mockTranscriptions (randomIndex env),
      t_confidence = 0.95,
      t_speaker = Some (or_default speaker ''unknown''),
      t_provider = ''mock'',
      t_timestamp = Some (clock env)\<rparr>"

text \<open>A call \<open>ident.generateMockTranscription(...)\<close> through an identifier of the module.\<close>

definition mock_via ::
  "js_module \<Rightarrow> string \<Rightarrow> gateway_env \<Rightarrow> bytes \<Rightarrow> string option \<Rightarrow> js_error + transcription option" where
  "mock_via scope ident env audio speaker =
     (case lookup_method scope ident ''generateMockTranscription'' of
        Inl e \<Rightarrow> Inl e
      | Inr _ \<Rightarrow> Inr (Some (generateMockTranscription env audio speaker)))"

text \<open>
  The provider adapters: the check that the provider is configured, whose error the
  adapter's own \<open>catch\<close> rewraps, and then the HTTP exchange.
\<close>

definition transcribeWithOpenAI ::
  "transcription_config \<Rightarrow> gateway_env \<Rightarrow> bytes \<Rightarrow> string option \<Rightarrow> js_error + transcription" where
  "transcribeWithOpenAI cfg env audio speaker =
     (if \<not> truthy (openai_apiKey cfg)
      then Inl (Error ''OpenAI transcription failed: OpenAI API key not configured'')
      else openaiRequest env audio speaker)"

definition transcribeWithElevenLabs ::
  "transcription_config \<Rightarrow> gateway_env \<Rightarrow> bytes \<Rightarrow> string option \<Rightarrow> js_error + transcription" where
  "transcribeWithElevenLabs cfg env audio speaker =
     (if \<not> truthy (elevenlabs_apiKey cfg)
      then Inl (Error ''ElevenLabs transcription failed: ElevenLabs API key not configured'')
      else elevenlabsRequest env audio speaker)"

definition transcribeWithAssemblyAI ::
  "transcription_config \<Rightarrow> gateway_env \<Rightarrow> bytes \<Rightarrow> string option \<Rightarrow> js_error + transcription" where
  "transcribeWithAssemblyAI cfg env audio speaker =
     (if \<not> truthy (assemblyai_apiKey cfg)
      then Inl (Error ''AssemblyAI transcription failed: AssemblyAI API key not configured'')
      else assemblyaiRequest env audio speaker)"

text \<open>The \<open>try\<close> block of the provider loop in \<open>transcribeBufferedAudio\<close>.\<close>

definition returned :: "js_error + transcription \<Rightarrow> js_error + transcription option" where
  "returned r = (case r of Inl e \<Rightarrow> Inl e | Inr t \<Rightarrow> Inr (Some t))"

definition try_provider ::
  "js_module \<Rightarrow> transcription_config \<Rightarrow> gateway_env \<Rightarrow> string \<Rightarrow> bytes \<Rightarrow> string option \<Rightarrow>
   js_error + transcription option" where
  "try_provider scope cfg env provider audio speaker =
     (if provider = ''openai'' then
        (if \<not> truthy (openai_apiKey cfg)
            \<or> str_includes (or_default (openai_apiKey cfg) [])
                 ''PASTE_YOUR_ACTUAL_OPENAI_API_KEY_HERE''
         then mock_via scope ''mockAIService'' env audio speaker
         else returned (transcribeWithOpenAI cfg env audio speaker))
      else if provider = ''elevenlabs'' then returned (transcribeWithElevenLabs cfg env audio speaker)
      else if provider = ''assemblyai'' then returned (transcribeWithAssemblyAI cfg env audio speaker)
      else Inl (Error (''Unsupported transcription provider: '' @ provider)))"

text \<open>
  The loop \<open>for (const provider of providers)\<close>: the first provider that returns ends
  it; a failure at the provider equal to the last of the list falls back to the mock,
  any other failure goes on to the next provider; after the loop, the mock.
\<close>

fun provider_loop ::
  "js_module \<Rightarrow> transcription_config \<Rightarrow> gateway_env \<Rightarrow> string \<Rightarrow> bytes \<Rightarrow> string option \<Rightarrow>
   string list \<Rightarrow> js_error + transcription option" where
  "provider_loop scope cfg env lastProvider audio speaker [] =
     mock_via scope ''mockAIService'' env audio speaker"
| "provider_loop scope cfg env lastProvider audio speaker (provider # rest) =
     (case try_provider scope cfg env provider audio speaker of
        Inr r \<Rightarrow> Inr r
      | Inl error \<Rightarrow>
          if provider = lastProvider
          then mock_via scope ''mockAIService'' env audio speaker
          else provider_loop scope cfg env lastProvider audio speaker rest)"

definition provider_chain :: "string \<Rightarrow> string list" where
  "provider_chain active =
     [active] @ (if active = ''elevenlabs'' then [''openai'']
                 else if active = ''openai'' then [''elevenlabs'']
                 else [])"

text \<open>
  \<open>transcribeBufferedAudio\<close> from the point where the audio unit is built:
  \<open>mockAIService.shouldUseMockTranscription()\<close> is evaluated first, outside any
  \<open>try\<close>.
\<close>

definition transcribe_unit ::
  "js_module \<Rightarrow> string \<Rightarrow> transcription_config \<Rightarrow> gateway_env \<Rightarrow> bytes \<Rightarrow> string option \<Rightarrow>
   js_error + transcription option" where
  "transcribe_unit scope active cfg env combinedAudio latestSpeaker =
     (case lookup_method scope ''mockAIService'' ''shouldUseMockTranscription'' of
        Inl e \<Rightarrow> Inl e
      | Inr _ \<Rightarrow>
          if useMockTranscription env
          then mock_via scope ''mockAIService'' env combinedAudio latestSpeaker
          else provider_loop scope cfg env (last (provider_chain active))
                 combinedAudio latestSpeaker (provider_chain active))"

definition transcribeBufferedAudio_in ::
  "js_module \<Rightarrow> transcription_config \<Rightarrow> gateway_env \<Rightarrow> string \<Rightarrow> service_state \<Rightarrow>
   js_error + transcription option" where
  "transcribeBufferedAudio_in scope cfg env sessionId svc =
     (case map_of (audioBuffer svc) sessionId of
        None \<Rightarrow> Inr None
      | Some sessionBuffer \<Rightarrow>
          if chunks sessionBuffer = [] then Inr None
          else
            (let combinedAudio = concat (map chunk_data (chunks sessionBuffer));
                 latestSpeaker = chunk_speaker (last (chunks sessionBuffer))
             in transcribe_unit scope (activeProvider svc) cfg env combinedAudio latestSpeaker))"

definition transcribeBufferedAudio ::
  "transcription_config \<Rightarrow> gateway_env \<Rightarrow> string \<Rightarrow> service_state \<Rightarrow> js_error + transcription option" where
  "transcribeBufferedAudio = transcribeBufferedAudio_in service_module"

text \<open>
  \<open>processAudioChunk\<close>. \<open>now\<close> is the clock when the fragment arrives, \<open>now'\<close> the
  clock when the gateway has returned. The call
  \<open>MockAIService.shouldUseMockTranscription()\<close> comes first, before the fragment is
  buffered. An error, of that call or of the gateway, leaves through the \<open>catch\<close> that
  rethrows it, past the three statements that reset the buffer.
\<close>

definition new_buffer :: "time \<Rightarrow> session_buffer" where
  "new_buffer now = \<lparr>chunks = [], lastProcessed = now, totalSize = 0\<rparr>"

text \<open>The session's buffer, created empty at the first fragment.\<close>

definition buffer_of :: "time \<Rightarrow> string \<Rightarrow> service_state \<Rightarrow> session_buffer" where
  "buffer_of now sessionId svc =
     (case map_of (audioBuffer svc) sessionId of
        None \<Rightarrow> new_buffer now
      | Some b \<Rightarrow> b)"

definition push_chunk :: "bytes \<Rightarrow> time \<Rightarrow> string option \<Rightarrow> session_buffer \<Rightarrow> session_buffer" where
  "push_chunk audioChunk ts speaker b =
     b\<lparr>chunks := chunks b @ [\<lparr>chunk_data = audioChunk, chunk_timestamp = ts,
                                chunk_speaker = speaker\<rparr>],
       totalSize := totalSize b + length audioChunk\<rparr>"

definition reset_buffer :: "time \<Rightarrow> session_buffer \<Rightarrow> session_buffer" where
  "reset_buffer now b = b\<lparr>chunks := [], lastProcessed := now, totalSize := 0\<rparr>"

definition shouldProcess :: "transcription_config \<Rightarrow> time \<Rightarrow> session_buffer \<Rightarrow> bool" where
  "shouldProcess cfg now b =
     (totalSize b \<ge> maxAudioChunkSize cfg
      \<or> now - lastProcessed b \<ge> interval cfg
      \<or> length (chunks b) \<ge> 3)"

definition processAudioChunk_in ::
  "js_module \<Rightarrow> transcription_config \<Rightarrow> gateway_env \<Rightarrow> time \<Rightarrow> time \<Rightarrow>
   bytes \<Rightarrow> string option \<Rightarrow> string \<Rightarrow> time \<Rightarrow> service_state \<Rightarrow>
   (js_error + transcription option) \<times> service_state" where
  "processAudioChunk_in scope cfg env now now' audioChunk speaker sessionId ts svc =
     (case lookup_method scope ''MockAIService'' ''shouldUseMockTranscription'' of
        Inl e \<Rightarrow> (Inl e, svc)
      | Inr _ \<Rightarrow>
          if useMockTranscription env
          then (mock_via scope ''MockAIService'' env audioChunk speaker, svc)
          else
            (let sessionBuffer = buffer_of now sessionId svc;
                 pushed = push_chunk audioChunk ts speaker sessionBuffer;
                 svc1 = svc\<lparr>audioBuffer := AList.update sessionId pushed (audioBuffer svc)\<rparr>
             in if shouldProcess cfg now pushed
                then
                  (case transcribeBufferedAudio_in scope cfg env sessionId svc1 of
                     Inl error \<Rightarrow> (Inl error, svc1)
                   | Inr result \<Rightarrow>
                       (Inr result,
                        svc1\<lparr>audioBuffer :=
                               AList.update sessionId (reset_buffer now' pushed) (audioBuffer svc1)\<rparr>))
                else (Inr None, svc1)))"

definition processAudioChunk ::
  "transcription_config \<Rightarrow> gateway_env \<Rightarrow> time \<Rightarrow> time \<Rightarrow> bytes \<Rightarrow> string option \<Rightarrow> string \<Rightarrow>
   time \<Rightarrow> service_state \<Rightarrow> (js_error + transcription option) \<times> service_state" where
  "processAudioChunk = processAudioChunk_in service_module"

text \<open>
  The body of the timer in \<open>startPeriodicProcessing\<close> for one entry of the buffer map,
  and the loop over the entries; \<open>clock_at\<close> gives the two readings of the clock at each
  entry's turn. An error of the gateway is caught and logged, after the reset has been
  skipped.
\<close>

definition periodic_entry ::
  "js_module \<Rightarrow> transcription_config \<Rightarrow> gateway_env \<Rightarrow> time \<Rightarrow> time \<Rightarrow> string \<Rightarrow>
   service_state \<Rightarrow> service_state" where
  "periodic_entry scope cfg env now now' sessionId svc =
     (case map_of (audioBuffer svc) sessionId of
        None \<Rightarrow> svc
      | Some buffer \<Rightarrow>
          if length (chunks buffer) > 0 \<and> now - lastProcessed buffer > 8000
          then
            (case transcribeBufferedAudio_in scope cfg env sessionId svc of
               Inl error \<Rightarrow> svc
             | Inr result \<Rightarrow>
                 svc\<lparr>audioBuffer :=
                       AList.update sessionId (reset_buffer now' buffer) (audioBuffer svc)\<rparr>)
          else svc)"

definition periodic_processing_in ::
  "js_module \<Rightarrow> transcription_config \<Rightarrow> gateway_env \<Rightarrow> (string \<Rightarrow> time \<times> time) \<Rightarrow>
   service_state \<Rightarrow> service_state" where
  "periodic_processing_in scope cfg env clock_at svc =
     fold (\<lambda>e. periodic_entry scope cfg env (fst (clock_at (fst e))) (snd (clock_at (fst e))) (fst e))
       (audioBuffer svc) svc"

definition periodic_processing ::
  "transcription_config \<Rightarrow> gateway_env \<Rightarrow> (string \<Rightarrow> time \<times> time) \<Rightarrow> service_state \<Rightarrow> service_state" where
  "periodic_processing = periodic_processing_in service_module"

section \<open>Sequences of registry operations\<close>

text \<open>A slot holds a live connection reference when its \<open>socketId\<close> is truthy.\<close>

definition both_connected :: "session \<Rightarrow> bool" where
  "both_connected s = (truthy (socketId (doctor s)) \<and> truthy (socketId (patient s)))"

definition neither_connected :: "session \<Rightarrow> bool" where
  "neither_connected s = (\<not> truthy (socketId (doctor s)) \<and> \<not> truthy (socketId (patient s)))"

datatype registry_op =
    OpCreate time string "string option" "string option"
  | OpAttach time string string string
  | OpDetach time string

fun apply_op :: "registry_op \<Rightarrow> server_state \<Rightarrow> server_state" where
  "apply_op (OpCreate now sessionId doctorName patientName) st =
     snd (createOrGetSession now sessionId doctorName patientName st)"
| "apply_op (OpAttach now sessionId userRole sock) st =
     snd (addUserToSession now sessionId userRole sock st)"
| "apply_op (OpDetach now sock) st = snd (removeUserFromSession now sock st)"

definition run_ops :: "registry_op list \<Rightarrow> server_state \<Rightarrow> server_state" where
  "run_ops ops st = fold apply_op ops st"

definition status_sound :: "server_state \<Rightarrow> bool" where
  "status_sound st =
     (\<forall>sessionId s. map_of (activeSessions st) sessionId = Some s \<longrightarrow>
        both_connected s \<longrightarrow> status s = ''active'')"

text \<open>Doctor joins, patient joins, doctor's connection drops.\<close>

definition reconnect_trace :: "registry_op list" where
  "reconnect_trace =
     [OpCreate 0 ''DEMO-1'' (Some ''Alice'') None,
      OpAttach 1 ''DEMO-1'' ''doctor'' ''sockA'',
      OpAttach 2 ''DEMO-1'' ''patient'' ''sockB'',
      OpDetach 3 ''sockA'']"

text \<open>A session joined and left again a day after it was created.\<close>

definition sweep_trace :: "registry_op list" where
  "sweep_trace =
     [OpCreate 0 ''OLD'' (Some ''Alice'') None,
      OpAttach 89999000 ''OLD'' ''doctor'' ''sockA'',
      OpDetach 89999000 ''sockA'',
      OpCreate 89999500 ''NEW'' (Some ''Carol'') None]"

text \<open>The sweep's test on one entry, and the age the specification speaks of.\<close>

definition expired :: "time \<Rightarrow> int \<Rightarrow> string \<times> session \<Rightarrow> bool" where
  "expired now maxAge e =
     (now - createdAt (metadata (snd e)) > maxAge \<and> status (snd e) = ''ended'')"

definition activity_age :: "time \<Rightarrow> session \<Rightarrow> int" where
  "activity_age now s = now - lastActivity (metadata s)"

section \<open>Reading a handler's result\<close>

text \<open>The session a connection is tracked in, when that session is registered.\<close>

definition session_of :: "string \<Rightarrow> server_state \<Rightarrow> (string \<times> session) option" where
  "session_of sock st =
     (case getSessionIdBySocketId sock st of
        None \<Rightarrow> None
      | Some sessionId \<Rightarrow>
          if sessionId = [] then None
          else map_option (Pair sessionId) (getSession sessionId st))"

text \<open>What a handler has emitted when it finishes or suspends.\<close>

fun emitted :: "handler_step \<Rightarrow> emission list" where
  "emitted (Finished out) = out"
| "emitted (Awaiting sessionId held req) = []"

fun suspended :: "handler_step \<Rightarrow> bool" where
  "suspended (Finished out) = False"
| "suspended (Awaiting sessionId held req) = True"

fun requested :: "handler_step \<Rightarrow> mer_request option" where
  "requested (Finished out) = None"
| "requested (Awaiting sessionId held req) = Some req"

fun is_recording_stopped :: "string \<Rightarrow> emission \<Rightarrow> bool" where
  "is_recording_stopped room (IoTo r, RecordingStopped by t dur n) = (r = room)"
| "is_recording_stopped room e = False"


section \<open>A consultation\<close>

text \<open>
  Doctor Alice and patient Bob join \<open>DEMO-1\<close>; Alice starts recording; one utterance
  is added to the transcript.
\<close>

definition doctor_cmd :: command_data where
  "doctor_cmd = \<lparr>d_sessionId = Some ''DEMO-1'', d_userRole = Some ''doctor'',
                 d_userName = Some ''Alice'', d_customInstructions = None\<rparr>"

definition patient_cmd :: command_data where
  "patient_cmd = \<lparr>d_sessionId = Some ''DEMO-1'', d_userRole = Some ''patient'',
                  d_userName = Some ''Bob'', d_customInstructions = None\<rparr>"

definition joined_state :: server_state where
  "joined_state =
     fst (join_session 2 ''sockB'' patient_cmd (fst (join_session 1 ''sockA'' doctor_cmd initial_state)))"

definition recording_state :: server_state where
  "recording_state = fst (start_recording 10 ''sockA'' doctor_cmd joined_state)"

definition utterance :: entry_fields where
  "utterance = \<lparr>ef_id = None, ef_speaker = ''patient'', ef_speakerName = ''Bob'',
                ef_text = ''No, just the burning pain.'', ef_confidence = 0.95\<rparr>"

definition transcribed_state :: server_state where
  "transcribed_state = snd (addTranscriptEntry 15 ''DEMO-1'' utterance recording_state)"


text \<open>
  While the generator works on the doctor's \<open>generate-mer\<close> request, the same
  connection sends a \<open>start-recording\<close> whose payload declares the patient role; then
  the generator delivers.
\<close>

definition switched_cmd :: command_data where
  "switched_cmd = doctor_cmd\<lparr>d_userRole := Some ''patient''\<rparr>"

definition pending_request :: "server_state \<times> handler_step" where
  "pending_request = generate_mer_begin 30 ''sockA'' doctor_cmd transcribed_state"

definition role_switch :: "server_state \<times> emission list" where
  "role_switch = start_recording 32 ''sockA'' switched_cmd (fst pending_request)"

definition delivered :: "server_state \<times> emission list" where
  "delivered = generate_mer_continue 35 ''sockA'' (snd pending_request)
                 (Inr (MerDocument ''summary'')) (fst role_switch)"

text \<open>
  While the generator works for the doctor's \<open>stop-recording\<close>, the patient's
  connection sends a \<open>start-recording\<close> whose payload declares no role; then the
  generator delivers. \<open>impostor_cmd\<close> is a payload from the patient's connection that
  declares the doctor role.
\<close>

definition impostor_cmd :: command_data where
  "impostor_cmd = patient_cmd\<lparr>d_userRole := Some ''doctor''\<rparr>"

definition roleless_cmd :: command_data where
  "roleless_cmd = patient_cmd\<lparr>d_userRole := None\<rparr>"

definition pending_stop :: "server_state \<times> handler_step" where
  "pending_stop = stop_recording_begin 30 ''sockA'' doctor_cmd transcribed_state"

definition patient_command :: "server_state \<times> emission list" where
  "patient_command = start_recording 32 ''sockB'' roleless_cmd (fst pending_stop)"

definition stop_delivered :: "server_state \<times> emission list" where
  "stop_delivered = stop_recording_continue 35 ''sockA'' doctor_cmd (snd pending_stop)
                      (Inr (MerDocument ''summary'')) (fst patient_command)"

section \<open>Buffered fragments\<close>

text \<open>
  Both providers are configured and both fail. The buffering statements of
  \<open>processAudioChunk\<close> on their own, and the buffer of \<open>DEMO-1\<close> as they fill it with
  one and with two fragments of 1200 bytes, arrived at 1000 and at 1200.
\<close>

definition demo_config :: transcription_config where
  "demo_config = \<lparr>openai_apiKey = Some ''sk-demo'', elevenlabs_apiKey = Some ''el-demo'',
                   assemblyai_apiKey = None, maxAudioChunkSize = 1048576, interval = 3000\<rparr>"

definition failing_env :: gateway_env where
  "failing_env =
     \<lparr>useMockTranscription = False, randomIndex = 7, clock = 2000,
      openaiRequest = (\<lambda>audio speaker. Inl (Error ''OpenAI request timeout'')),
      elevenlabsRequest = (\<lambda>audio speaker. Inl (Error ''ElevenLabs rate limit exceeded'')),
      assemblyaiRequest = (\<lambda>audio speaker. Inl (Error ''AssemblyAI transcription failed: timeout''))\<rparr>"

definition fragment :: bytes where
  "fragment = replicate 1200 0"

definition empty_service :: service_state where
  "empty_service = \<lparr>activeProvider = ''openai'', audioBuffer = []\<rparr>"

definition buffered :: "time \<Rightarrow> bytes \<Rightarrow> string option \<Rightarrow> string \<Rightarrow> service_state \<Rightarrow> service_state" where
  "buffered now audioChunk speaker sessionId svc =
     svc\<lparr>audioBuffer :=
           AList.update sessionId (push_chunk audioChunk now speaker (buffer_of now sessionId svc))
             (audioBuffer svc)\<rparr>"

definition one_fragment :: service_state where
  "one_fragment = buffered 1000 fragment (Some ''patient'') ''DEMO-1'' empty_service"

definition two_fragments :: service_state where
  "two_fragments = buffered 1200 fragment (Some ''doctor'') ''DEMO-1'' one_fragment"

text \<open>The timer fires at 10000; a gateway call made then would return at 10050.\<close>

definition timer_clock :: "string \<Rightarrow> time \<times> time" where
  "timer_clock sessionId = (10000, 10050)"

text \<open>
  A module links the mock class under an identifier when it binds the identifier and
  the class defines the two methods that the service calls. \<open>repaired_module\<close> is the
  service's module with the identifier that the gateway reads bound as well, and the
  method \<open>shouldUseMockTranscription\<close> defined.
\<close>

definition links_mock :: "js_module \<Rightarrow> string \<Rightarrow> bool" where
  "links_mock scope ident \<longleftrightarrow>
     ident \<in> set (bindings scope)
     \<and> ''shouldUseMockTranscription'' \<in> set (mock_methods scope)
     \<and> ''generateMockTranscription'' \<in> set (mock_methods scope)"

definition repaired_module :: js_module where
  "repaired_module =
     \<lparr>bindings = ''mockAIService'' # module_bindings,
      mock_methods = ''shouldUseMockTranscription'' # mock_class_methods\<rparr>"

section \<open>Connection tracking\<close>

lemma addUserToSession_Some:
  assumes "addUserToSession now sessionId userRole sock st = (Some s', st')"
  shows "sessionUsers st' = AList.update sock sessionId (sessionUsers st)"
    and "map_of (activeSessions st') sessionId = Some s'"
  using assms
  by (auto simp: addUserToSession_def Let_def update_conv' split: option.splits)

text \<open>
  C10. After \<open>addUserToSession\<close> has returned the session, the connection looks up
  to exactly that session id; the tracking map holds one entry for the connection; and
  a later attach of the same connection to another session replaces the mapping.
\<close>

theorem attach_then_lookup:
  assumes "addUserToSession now sessionId userRole sock st = (Some s', st')"
  shows "getSessionIdBySocketId sock st' = Some sessionId
       \<and> (distinct (map fst (sessionUsers st)) \<longrightarrow>
            distinct (map fst (sessionUsers st'))
          \<and> filter (\<lambda>e. fst e = sock) (sessionUsers st') = [(sock, sessionId)])
       \<and> (\<forall>now2 sessionId2 userRole2 s'' st''.
            addUserToSession now2 sessionId2 userRole2 sock st' = (Some s'', st'') \<longrightarrow>
            getSessionIdBySocketId sock st'' = Some sessionId2)"
proof -
  have upd: "sessionUsers st' = AList.update sock sessionId (sessionUsers st)"
    using assms by (rule addUserToSession_Some)
  have look: "getSessionIdBySocketId sock st' = Some sessionId"
    by (simp add: getSessionIdBySocketId_def upd update_conv')
  have one: "filter (\<lambda>e. fst e = sock) (AList.update sock sessionId al) = [(sock, sessionId)]"
    if "distinct (map fst al)" for al :: "(string \<times> string) list"
    using that
  proof (induction al)
    case Nil
    show ?case by simp
  next
    case (Cons p al)
    have none: "filter (\<lambda>e. fst e = sock) al = []" if "fst p = sock"
    proof -
      have "sock \<notin> fst ` set al" using Cons.prems that by auto
      then show ?thesis by (induction al) auto
    qed
    show ?case using Cons none by (cases p) auto
  qed
  have later: "getSessionIdBySocketId sock st'' = Some sessionId2"
    if "addUserToSession now2 sessionId2 userRole2 sock st' = (Some s'', st'')"
    for now2 sessionId2 userRole2 s'' st''
    using addUserToSession_Some(1)[OF that]
    by (simp add: getSessionIdBySocketId_def update_conv')
  show ?thesis
    using look later one[of "sessionUsers st"] by (auto simp: upd distinct_update)
qed

section \<open>Session status under attach and detach\<close>

lemma addUserToSession_active:
  assumes "addUserToSession now sessionId userRole sock st = (Some s', st')"
  shows "both_connected s' \<longrightarrow> status s' = ''active''"
  using assms
  by (auto simp: addUserToSession_def attach_slot_def Let_def both_connected_def
        split: option.splits if_splits)

lemma addUserToSession_sessions:
  assumes "map_of (activeSessions (snd (addUserToSession now sessionId userRole sock st))) k = Some s"
  shows "map_of (activeSessions st) k = Some s
       \<or> fst (addUserToSession now sessionId userRole sock st) = Some s"
  using assms
  by (auto simp: addUserToSession_def Let_def update_conv' split: option.splits if_splits)

lemma attach_slot_status:
  "status (attach_slot now userRole sock s)
     = (if both_connected (attach_slot now userRole sock s) then ''active'' else status s)"
  by (auto simp: attach_slot_def update_slot_def both_connected_def Let_def)

lemma detach_slot_status:
  "status (detach_slot now sock s)
     = (if neither_connected (detach_slot now sock s) then ''ended'' else status s)"
  by (auto simp: detach_slot_def neither_connected_def Let_def)

lemma addUserToSession_status:
  assumes "getSession sessionId st = Some s"
    and "addUserToSession now sessionId userRole sock st = (Some s', st')"
  shows "status s' = (if both_connected s' then ''active'' else status s)"
proof -
  have "s' = attach_slot now userRole sock s"
    using assms by (auto simp: addUserToSession_def getSession_def Let_def)
  then show ?thesis by (simp only: attach_slot_status)
qed

lemma status_sound_attach:
  assumes "status_sound st"
  shows "status_sound (snd (addUserToSession now sessionId userRole sock st))"
  unfolding status_sound_def
proof (intro allI impI)
  fix k s
  assume k: "map_of (activeSessions (snd (addUserToSession now sessionId userRole sock st))) k = Some s"
    and b: "both_connected s"
  from addUserToSession_sessions[OF k]
  consider "map_of (activeSessions st) k = Some s"
    | "fst (addUserToSession now sessionId userRole sock st) = Some s" by blast
  then show "status s = ''active''"
  proof cases
    case 1
    with assms b show ?thesis by (simp add: status_sound_def)
  next
    case 2
    then have "addUserToSession now sessionId userRole sock st
                 = (Some s, snd (addUserToSession now sessionId userRole sock st))"
      by (metis prod.collapse)
    from addUserToSession_active[OF this] b show ?thesis by simp
  qed
qed

lemma status_sound_detach:
  assumes "status_sound st"
  shows "status_sound (snd (removeUserFromSession now sock st))"
  using assms
  unfolding status_sound_def removeUserFromSession_def detach_slot_def Let_def both_connected_def
    clear_slot_def
  by (auto simp: update_conv' truthy_def split: option.splits if_splits)

lemma status_sound_create:
  assumes "status_sound st"
  shows "status_sound (snd (createOrGetSession now sessionId dn pn st))"
  using assms
  unfolding status_sound_def createOrGetSession_def Let_def both_connected_def new_session_def
  by (auto simp: update_conv' truthy_def split: option.splits if_splits)

lemma status_sound_run:
  "status_sound st \<Longrightarrow> status_sound (run_ops ops st)"
  unfolding run_ops_def
proof (induction ops arbitrary: st)
  case Nil
  then show ?case by simp
next
  case (Cons op ops)
  have "status_sound (apply_op op st)"
    using Cons.prems
    by (cases op) (simp_all add: status_sound_attach status_sound_detach status_sound_create)
  then show ?case using Cons.IH by simp
qed

lemma status_sound_initial: "status_sound initial_state"
  by (simp add: status_sound_def initial_state_def)

lemmas registry_eval =
  run_ops_def initial_state_def createOrGetSession_def new_session_def
  addUserToSession_def attach_slot_def removeUserFromSession_def detach_slot_def
  update_slot_def clear_slot_def truthy_def
  both_connected_def getSession_def Let_def

text \<open>
  C1, as stated, fails: after doctor and patient have joined and the doctor's connection
  is detached, the doctor slot is empty and the status is still \<open>'active'\<close>
  (\<open>removeUserFromSession\<close> only ever writes \<open>'ended'\<close>, and only when both slots are
  empty).
\<close>

theorem active_after_single_detach:
  "map_option status (getSession ''DEMO-1'' (run_ops reconnect_trace initial_state)) = Some ''active''
   \<and> map_option both_connected (getSession ''DEMO-1'' (run_ops reconnect_trace initial_state))
       = Some False"
  by (simp add: reconnect_trace_def registry_eval)

theorem attach_then_lookup_witness:
  "\<exists>s' st'. addUserToSession 1 ''DEMO-1'' ''doctor'' ''sockA''
               (run_ops (take 1 reconnect_trace) initial_state) = (Some s', st')
           \<and> getSessionIdBySocketId ''sockA'' st' = Some ''DEMO-1''"
proof -
  obtain s' st' where a: "addUserToSession 1 ''DEMO-1'' ''doctor'' ''sockA''
      (run_ops (take 1 reconnect_trace) initial_state) = (Some s', st')"
    by (simp add: reconnect_trace_def registry_eval)
  from attach_then_lookup[OF a] a show ?thesis by blast
qed

section \<open>The sweep of old sessions\<close>

lemma delete_filter: "AList.delete k al = filter (\<lambda>e. fst e \<noteq> k) al"
  by (induction al) auto

lemma cleanup_fold:
  "fold (cleanup_step now maxAge) es (m, c) =
     (filter (\<lambda>e. fst e \<notin> fst ` set (filter (expired now maxAge) es)) m,
      c + length (filter (expired now maxAge) es))"
proof (induction es arbitrary: m c)
  case Nil
  show ?case by simp
next
  case (Cons e es)
  show ?case
  proof (cases "expired now maxAge e")
    case True
    then have "cleanup_step now maxAge e (m, c) = (filter (\<lambda>x. fst x \<noteq> fst e) m, c + 1)"
      by (simp add: cleanup_step_def expired_def Let_def delete_filter)
    then show ?thesis using True by (simp add: Cons.IH)
  next
    case False
    then have "cleanup_step now maxAge e (m, c) = (m, c)"
      by (auto simp add: cleanup_step_def expired_def Let_def)
    then show ?thesis using False by (simp add: Cons.IH)
  qed
qed

lemma distinct_key_filter:
  assumes "distinct (map fst al)"
  shows "filter (\<lambda>e. fst e \<notin> fst ` set (filter P al)) al = filter (\<lambda>e. \<not> P e) al"
proof (rule filter_cong[OF refl])
  fix e assume e: "e \<in> set al"
  have "e' = e" if "e' \<in> set al" "fst e' = fst e" for e'
    using assms that e by (auto simp: distinct_map dest: inj_onD)
  then have "(\<exists>e'\<in>set al. P e' \<and> fst e' = fst e) = P e"
    using e by blast
  then show "(fst e \<notin> fst ` set (filter P al)) = (\<not> P e)"
    by (auto simp: image_iff)
qed

lemma map_of_filter_distinct:
  assumes "distinct (map fst al)"
  shows "map_of (filter P al) k =
           (case map_of al k of None \<Rightarrow> None | Some v \<Rightarrow> if P (k, v) then Some v else None)"
  using assms
proof (induction al)
  case Nil
  show ?case by simp
next
  case (Cons e al)
  obtain k' v' where e: "e = (k', v')" by (cases e)
  have absent: "map_of al k' = None" using Cons.prems e by (simp add: map_of_eq_None_iff)
  show ?case using Cons e absent by (auto split: option.splits)
qed

lemma cleanup_fold_distinct:
  assumes "distinct (map fst al)"
  shows "fold (cleanup_step now maxAge) al (al, 0) =
           (filter (\<lambda>e. \<not> expired now maxAge e) al, length (filter (expired now maxAge) al))"
  unfolding cleanup_fold distinct_key_filter[OF assms] by simp

lemma cleanupOldSessions_filter:
  assumes "distinct (map fst (activeSessions st))"
  shows "cleanupOldSessions now maxAgeHours st =
          (length (filter (expired now (maxAgeHours * 60 * 60 * 1000)) (activeSessions st)),
           st\<lparr>activeSessions :=
                filter (\<lambda>e. \<not> expired now (maxAgeHours * 60 * 60 * 1000) e) (activeSessions st)\<rparr>)"
  by (simp add: cleanupOldSessions_def Let_def cleanup_fold_distinct[OF assms])

text \<open>The keys of \<open>activeSessions\<close> stay distinct, as those of a \<open>Map\<close> are.\<close>

lemma distinct_sessions_step:
  assumes "distinct (map fst (activeSessions st))"
  shows "distinct (map fst (activeSessions (apply_op op st)))"
  using assms
  by (cases op)
     (auto simp: createOrGetSession_def addUserToSession_def removeUserFromSession_def Let_def
        distinct_update split: option.splits)

lemma distinct_sessions_run:
  "distinct (map fst (activeSessions st)) \<Longrightarrow> distinct (map fst (activeSessions (run_ops ops st)))"
  unfolding run_ops_def
  by (induction ops arbitrary: st) (simp_all add: distinct_sessions_step)

text \<open>
  C8, as stated, fails: the sweep measures the age from \<open>metadata.createdAt\<close>, not from
  \<open>lastActivity\<close>. Session \<open>OLD\<close> was created at 0, was joined and left one second
  before the sweep at 25 hours, and is removed by a 24-hour sweep although its last
  activity is one second old.
\<close>

theorem sweep_ignores_lastActivity:
  "map_option status (getSession ''OLD'' (run_ops sweep_trace initial_state)) = Some ''ended''
   \<and> map_option (activity_age 90000000) (getSession ''OLD'' (run_ops sweep_trace initial_state))
       = Some 1000
   \<and> getSession ''OLD'' (snd (cleanupOldSessions 90000000 24 (run_ops sweep_trace initial_state)))
       = None"
  by (simp add: sweep_trace_def registry_eval activity_age_def cleanupOldSessions_def
        cleanup_step_def)

text \<open>
  C8, amended. The sweep removes exactly the sessions whose status is \<open>'ended'\<close> and
  whose age since creation (\<open>now - metadata.createdAt\<close>) exceeds \<open>maxAgeHours\<close>; it
  returns their number; every other session, in particular every session whose status is
  not \<open>'ended'\<close>, is kept as it is.
\<close>

theorem sweep_removes_old_ended:
  assumes "distinct (map fst (activeSessions st))"
  shows "getSession sessionId (snd (cleanupOldSessions now maxAgeHours st)) =
           (case getSession sessionId st of
              None \<Rightarrow> None
            | Some s \<Rightarrow>
                if now - createdAt (metadata s) > maxAgeHours * 60 * 60 * 1000
                   \<and> status s = ''ended''
                then None else Some s)
       \<and> fst (cleanupOldSessions now maxAgeHours st) =
           length (filter (expired now (maxAgeHours * 60 * 60 * 1000)) (activeSessions st))
       \<and> (\<forall>s. getSession sessionId st = Some s \<and> status s \<noteq> ''ended'' \<longrightarrow>
             getSession sessionId (snd (cleanupOldSessions now maxAgeHours st)) = Some s)"
  unfolding cleanupOldSessions_filter[OF assms] getSession_def
  by (auto simp: map_of_filter_distinct[OF assms] expired_def split: option.splits)

theorem sweep_removes_old_ended_witness:
  "distinct (map fst (activeSessions (run_ops sweep_trace initial_state)))
   \<and> getSession ''OLD'' (snd (cleanupOldSessions 90000000 24 (run_ops sweep_trace initial_state)))
       = None
   \<and> getSession ''NEW'' (snd (cleanupOldSessions 90000000 24 (run_ops sweep_trace initial_state)))
       = getSession ''NEW'' (run_ops sweep_trace initial_state)
   \<and> fst (cleanupOldSessions 90000000 24 (run_ops sweep_trace initial_state)) = 1"
proof -
  have d: "distinct (map fst (activeSessions (run_ops sweep_trace initial_state)))"
    by (rule distinct_sessions_run) (simp add: initial_state_def)
  have old: "map_option (expired 90000000 (24 * 60 * 60 * 1000) \<circ> Pair ''OLD'')
               (getSession ''OLD'' (run_ops sweep_trace initial_state)) = Some True"
    by (simp add: sweep_trace_def registry_eval expired_def)
  have new: "map_option (expired 90000000 (24 * 60 * 60 * 1000) \<circ> Pair ''NEW'')
               (getSession ''NEW'' (run_ops sweep_trace initial_state)) = Some False"
    by (simp add: sweep_trace_def registry_eval expired_def)
  have n: "length (filter (expired 90000000 (24 * 60 * 60 * 1000))
             (activeSessions (run_ops sweep_trace initial_state))) = 1"
    by (simp add: sweep_trace_def registry_eval expired_def)
  show ?thesis
    using d n old new
      sweep_removes_old_ended[OF d, of "''OLD''" 90000000 24]
      sweep_removes_old_ended[OF d, of "''NEW''" 90000000 24]
    by (auto simp: expired_def split: option.splits if_splits)
qed


section \<open>Recording commands\<close>

lemma attach_slot_keeps:
  "isRecording (attach_slot now role sock s) = isRecording s"
  "transcript (attach_slot now role sock s) = transcript s"
  "merDocument (attach_slot now role sock s) = merDocument s"
  "recordingStartTime (attach_slot now role sock s) = recordingStartTime s"
  "recordingEndTime (attach_slot now role sock s) = recordingEndTime s"
  "name (doctor (attach_slot now role sock s)) = name (doctor s)"
  "name (patient (attach_slot now role sock s)) = name (patient s)"
  by (simp_all add: attach_slot_def update_slot_def Let_def)

lemma detach_slot_keeps:
  "isRecording (detach_slot now sock s) = isRecording s"
  "transcript (detach_slot now sock s) = transcript s"
  "merDocument (detach_slot now sock s) = merDocument s"
  "recordingStartTime (detach_slot now sock s) = recordingStartTime s"
  "recordingEndTime (detach_slot now sock s) = recordingEndTime s"
  "name (doctor (detach_slot now sock s)) = name (doctor s)"
  "name (patient (detach_slot now sock s)) = name (patient s)"
  by (simp_all add: detach_slot_def clear_slot_def Let_def)



lemma removeUserFromSession_cases:
  "removeUserFromSession now sock st =
     (case map_of (sessionUsers st) sock of
        None \<Rightarrow> (None, st)
      | Some sessionId \<Rightarrow>
          (case (if sessionId = [] then None else map_of (activeSessions st) sessionId) of
             None \<Rightarrow> (None, st)
           | Some s \<Rightarrow>
               (Some (sessionId, detach_slot now sock s),
                st\<lparr>activeSessions :=
                     AList.update sessionId (detach_slot now sock s) (activeSessions st),
                   sessionUsers := AList.delete sock (sessionUsers st)\<rparr>)))"
  by (simp add: removeUserFromSession_def Let_def split: option.splits)

lemma reattach_eq:
  "reattach now sock role st =
     (case session_of sock st of
        None \<Rightarrow> (None, st)
      | Some (sessionId, s) \<Rightarrow>
          (let s' = attach_slot now role sock (detach_slot now sock s)
           in (Some (sessionId, s'),
               st\<lparr>activeSessions := AList.update sessionId s' (activeSessions st),
                  sessionUsers := AList.update sock sessionId
                                    (AList.delete sock (sessionUsers st))\<rparr>)))"
  by (simp add: reattach_def removeUserFromSession_cases addUserToSession_def session_of_def
        getSessionIdBySocketId_def getSession_def Let_def update_conv'
      split: option.splits)

lemmas handler_eval =
  registry_eval join_session_def update_name_def other_users_def session_joined_payload_def
  start_recording_def stop_recording_begin_def
  stop_recording_resume_def stop_recording_continue_def generate_mer_begin_def generate_mer_resume_def
  generate_mer_continue_def reattach_def or_default_def slice_last_def doctor_cmd_def patient_cmd_def
  joined_state_def recording_state_def transcribed_state_def utterance_def addTranscriptEntry_def
  session_of_def getSessionIdBySocketId_def held_session_def store_held_def duration_def
  recording_stopped_def


lemma doctor_role: "or_default (Some ''doctor'') dflt = ''doctor''"
  by (simp add: or_default_def)

lemma start_recording_doctor:
  assumes "session_of sock st = Some (sessionId, s)" and "d_userRole d = Some ''doctor''"
  shows "snd (start_recording now sock d st)
           = [(IoTo sessionId, RecordingStarted (or_default (d_userName d) ''Doctor'') now)]"
    and "getSession sessionId (fst (start_recording now sock d st))
           = Some ((attach_slot now ''doctor'' sock (detach_slot now sock s))
                     \<lparr>isRecording := True, status := ''recording'',
                      recordingStartTime := Some now\<rparr>)"
  using assms
  by (simp_all add: start_recording_def reattach_eq doctor_role Let_def getSession_def update_conv')

lemma stop_recording_begin_doctor:
  assumes "session_of sock st = Some (sessionId, s)" and "d_userRole d = Some ''doctor''"
  shows "\<not> isRecording s \<Longrightarrow>
           snd (stop_recording_begin now sock d st)
             = Finished [(SocketEmit sock, ErrorEvent ''Session is not currently recording'')]"
    and "\<not> isRecording s \<Longrightarrow>
           getSession sessionId (fst (stop_recording_begin now sock d st))
             = Some (attach_slot now ''doctor'' sock (detach_slot now sock s))"
    and "isRecording s \<Longrightarrow>
           getSession sessionId (fst (stop_recording_begin now sock d st))
             = Some ((attach_slot now ''doctor'' sock (detach_slot now sock s))
                       \<lparr>isRecording := False, status := ''completed'',
                        recordingEndTime := Some now\<rparr>)"
    and "isRecording s \<Longrightarrow> transcript s \<noteq> [] \<Longrightarrow>
           snd (stop_recording_begin now sock d st)
             = (let s' = (attach_slot now ''doctor'' sock (detach_slot now sock s))
                            \<lparr>isRecording := False, status := ''completed'',
                             recordingEndTime := Some now\<rparr>
                in Awaiting sessionId s'
                     \<lparr>mr_transcript = transcript s,
                      mr_sessionDuration = duration s',
                      mr_doctor = name (doctor s),
                      mr_patient = or_default (name (patient s)) ''Patient'',
                      mr_sessionId = sessionId,
                      mr_customInstructions = None\<rparr>)"
    and "isRecording s \<Longrightarrow> transcript s = [] \<Longrightarrow>
           snd (stop_recording_begin now sock d st)
             = Finished [recording_stopped sessionId d
                 ((attach_slot now ''doctor'' sock (detach_slot now sock s))
                       \<lparr>isRecording := False, status := ''completed'',
                        recordingEndTime := Some now\<rparr>)]"
  using assms
  by (simp_all add: stop_recording_begin_def reattach_eq doctor_role Let_def getSession_def
        update_conv' attach_slot_keeps detach_slot_keeps)


text \<open>
  C1, amended. After every attach (\<open>addUserToSession\<close> returning the session), whatever
  came before it, a session whose two slots both hold a live connection reference has
  status \<open>'active'\<close>; and so has every such session in every state reached from the
  empty registry by session creation, attach and detach operations. The converse is what
  fails, because of what each operation does to the status. An attach writes
  \<open>'active'\<close> when both slots are live afterwards and leaves the status as it was
  otherwise. A detach (\<open>removeUserFromSession\<close> returning the session) writes
  \<open>'ended'\<close> when neither slot is live afterwards and leaves the status as it was
  otherwise, so that a detach which leaves one participant attached keeps \<open>'active'\<close>.
  A \<open>start-recording\<close> from a tracked connection that declares the doctor role
  leaves the status \<open>'recording'\<close>, and a \<open>stop-recording\<close> from such a connection
  while the session records leaves it \<open>'completed'\<close>, whatever the slots hold.
\<close>

theorem status_under_attach_and_detach:
  "(addUserToSession now sessionId userRole sock st = (Some s', st') \<and> both_connected s'
      \<longrightarrow> status s' = ''active'')
   \<and> (getSession sessionId (run_ops ops initial_state) = Some s \<and> both_connected s
      \<longrightarrow> status s = ''active'')
   \<and> (getSession sessionId st = Some s0
        \<and> addUserToSession now sessionId userRole sock st = (Some s', st')
      \<longrightarrow> status s' = (if both_connected s' then ''active'' else status s0)
        \<and> getSession sessionId st' = Some s')
   \<and> (getSession sessionId st = Some s0
        \<and> removeUserFromSession now sock st = (Some (sessionId, s1), st1)
      \<longrightarrow> status s1 = (if neither_connected s1 then ''ended'' else status s0)
        \<and> getSession sessionId st1 = Some s1)
   \<and> (session_of sock st = Some (sessionId, s0) \<and> d_userRole d = Some ''doctor''
      \<longrightarrow> map_option status (getSession sessionId (fst (start_recording now sock d st)))
            = Some ''recording'')
   \<and> (session_of sock st = Some (sessionId, s0) \<and> d_userRole d = Some ''doctor''
        \<and> isRecording s0
      \<longrightarrow> map_option status (getSession sessionId (fst (stop_recording_begin now sock d st)))
            = Some ''completed'')"
proof (intro conjI impI)
  assume "addUserToSession now sessionId userRole sock st = (Some s', st') \<and> both_connected s'"
  then show "status s' = ''active''" using addUserToSession_active by blast
next
  assume "getSession sessionId (run_ops ops initial_state) = Some s \<and> both_connected s"
  then show "status s = ''active''"
    using status_sound_run[OF status_sound_initial, of ops]
    by (auto simp: status_sound_def getSession_def)
next
  assume a: "getSession sessionId st = Some s0
        \<and> addUserToSession now sessionId userRole sock st = (Some s', st')"
  then show "status s' = (if both_connected s' then ''active'' else status s0)"
    by (auto simp: addUserToSession_status)
  from a show "getSession sessionId st' = Some s'"
    by (auto simp: addUserToSession_def getSession_def Let_def update_conv')
next
  assume a: "getSession sessionId st = Some s0
        \<and> removeUserFromSession now sock st = (Some (sessionId, s1), st1)"
  then have s1: "s1 = detach_slot now sock s0"
    and st1: "getSession sessionId st1 = Some s1"
    by (auto simp: removeUserFromSession_def getSession_def Let_def update_conv'
          split: option.splits if_splits)
  show "status s1 = (if neither_connected s1 then ''ended'' else status s0)"
    unfolding s1 by (rule detach_slot_status)
  show "getSession sessionId st1 = Some s1" by (rule st1)
next
  assume "session_of sock st = Some (sessionId, s0) \<and> d_userRole d = Some ''doctor''"
  then show "map_option status (getSession sessionId (fst (start_recording now sock d st)))
            = Some ''recording''"
    by (simp add: start_recording_doctor(2))
next
  assume "session_of sock st = Some (sessionId, s0) \<and> d_userRole d = Some ''doctor''
        \<and> isRecording s0"
  then show "map_option status (getSession sessionId (fst (stop_recording_begin now sock d st)))
            = Some ''completed''"
    by (simp add: stop_recording_begin_doctor(3))
qed

theorem status_under_attach_and_detach_witness:
  "(\<exists>s' st'. addUserToSession 2 ''DEMO-1'' ''patient'' ''sockB''
                (run_ops (take 2 reconnect_trace) initial_state) = (Some s', st')
            \<and> both_connected s' \<and> status s' = ''active'')
   \<and> (\<exists>s. getSession ''DEMO-1'' (run_ops (take 3 reconnect_trace) initial_state) = Some s
          \<and> both_connected s \<and> status s = ''active'')
   \<and> (\<exists>s0 s' st'. getSession ''DEMO-1'' (run_ops (take 1 reconnect_trace) initial_state) = Some s0
          \<and> addUserToSession 1 ''DEMO-1'' ''doctor'' ''sockA''
               (run_ops (take 1 reconnect_trace) initial_state) = (Some s', st')
          \<and> \<not> both_connected s' \<and> status s' = status s0)
   \<and> (\<exists>s0 s1 st1. getSession ''DEMO-1'' (run_ops (take 3 reconnect_trace) initial_state) = Some s0
          \<and> removeUserFromSession 3 ''sockA'' (run_ops (take 3 reconnect_trace) initial_state)
              = (Some (''DEMO-1'', s1), st1)
          \<and> \<not> neither_connected s1 \<and> status s1 = status s0 \<and> status s1 = ''active'')
   \<and> (\<exists>s0 s1 st1. getSession ''DEMO-1'' (run_ops reconnect_trace initial_state) = Some s0
          \<and> removeUserFromSession 4 ''sockB'' (run_ops reconnect_trace initial_state)
              = (Some (''DEMO-1'', s1), st1)
          \<and> neither_connected s1 \<and> status s1 = ''ended'')
   \<and> (\<exists>s0. session_of ''sockA'' joined_state = Some (''DEMO-1'', s0)
          \<and> map_option status
               (getSession ''DEMO-1'' (fst (start_recording 10 ''sockA'' doctor_cmd joined_state)))
              = Some ''recording'')
   \<and> (\<exists>s0. session_of ''sockA'' recording_state = Some (''DEMO-1'', s0) \<and> isRecording s0
          \<and> map_option status
               (getSession ''DEMO-1'' (fst (stop_recording_begin 20 ''sockA'' doctor_cmd recording_state)))
              = Some ''completed'')"
proof -
  note T1 = status_under_attach_and_detach[THEN conjunct1, rule_format]
  note T2 = status_under_attach_and_detach[THEN conjunct2, THEN conjunct1, rule_format]
  note T3 = status_under_attach_and_detach[THEN conjunct2, THEN conjunct2, THEN conjunct1,
      rule_format]
  note T4 = status_under_attach_and_detach[THEN conjunct2, THEN conjunct2, THEN conjunct2,
      THEN conjunct1, rule_format]
  note T5 = status_under_attach_and_detach[THEN conjunct2, THEN conjunct2, THEN conjunct2,
      THEN conjunct2, THEN conjunct1, rule_format]
  note T6 = status_under_attach_and_detach[THEN conjunct2, THEN conjunct2, THEN conjunct2,
      THEN conjunct2, THEN conjunct2, rule_format]
  have role: "d_userRole doctor_cmd = Some ''doctor''" by (simp add: doctor_cmd_def)
  obtain s' st' where a: "addUserToSession 2 ''DEMO-1'' ''patient'' ''sockB''
                (run_ops (take 2 reconnect_trace) initial_state) = (Some s', st')"
    and b': "both_connected s'"
    by (simp add: reconnect_trace_def registry_eval)
  have A: "status s' = ''active''" using T1[OF conjI[OF a b']] .
  obtain s where s: "getSession ''DEMO-1'' (run_ops (take 3 reconnect_trace) initial_state) = Some s"
    and b: "both_connected s"
    by (simp add: reconnect_trace_def registry_eval)
  have B: "status s = ''active''" using T2[OF conjI[OF s b]] .
  obtain c0 c' ct' where c0: "getSession ''DEMO-1'' (run_ops (take 1 reconnect_trace) initial_state) = Some c0"
    and c: "addUserToSession 1 ''DEMO-1'' ''doctor'' ''sockA''
               (run_ops (take 1 reconnect_trace) initial_state) = (Some c', ct')"
    and cn: "\<not> both_connected c'"
    by (simp add: reconnect_trace_def registry_eval)
  have C: "status c' = status c0" using T3[OF conjI[OF c0 c]] cn by simp
  obtain d1 dt1 where d: "removeUserFromSession 3 ''sockA'' (run_ops (take 3 reconnect_trace) initial_state)
              = (Some (''DEMO-1'', d1), dt1)"
    and dn: "\<not> neither_connected d1"
    by (simp add: reconnect_trace_def registry_eval neither_connected_def)
  have D: "status d1 = status s" using T4[OF conjI[OF s d]] dn by simp
  obtain e0 e1 et1 where e0: "getSession ''DEMO-1'' (run_ops reconnect_trace initial_state) = Some e0"
    and e: "removeUserFromSession 4 ''sockB'' (run_ops reconnect_trace initial_state)
              = (Some (''DEMO-1'', e1), et1)"
    and en: "neither_connected e1"
    by (simp add: reconnect_trace_def registry_eval neither_connected_def)
  have E: "status e1 = ''ended''" using T4[OF conjI[OF e0 e]] en by simp
  obtain f0 where f0: "session_of ''sockA'' joined_state = Some (''DEMO-1'', f0)"
    by (simp add: handler_eval)
  have F: "map_option status
               (getSession ''DEMO-1'' (fst (start_recording 10 ''sockA'' doctor_cmd joined_state)))
              = Some ''recording''"
    using T5[OF conjI[OF f0 role]] .
  obtain g0 where g0: "session_of ''sockA'' recording_state = Some (''DEMO-1'', g0)"
    and gr: "isRecording g0"
    by (simp add: handler_eval)
  have G: "map_option status
               (getSession ''DEMO-1'' (fst (stop_recording_begin 20 ''sockA'' doctor_cmd recording_state)))
              = Some ''completed''"
    using T6[OF conjI[OF g0 conjI[OF role gr]]] .
  have D': "status d1 = ''active''" using D B by simp
  have W1: "\<exists>s' st'. addUserToSession 2 ''DEMO-1'' ''patient'' ''sockB''
                (run_ops (take 2 reconnect_trace) initial_state) = (Some s', st')
            \<and> both_connected s' \<and> status s' = ''active''"
    using a b' A by blast
  have W2: "\<exists>s. getSession ''DEMO-1'' (run_ops (take 3 reconnect_trace) initial_state) = Some s
          \<and> both_connected s \<and> status s = ''active''"
    using s b B by blast
  have W3: "\<exists>s0 s' st'. getSession ''DEMO-1'' (run_ops (take 1 reconnect_trace) initial_state) = Some s0
          \<and> addUserToSession 1 ''DEMO-1'' ''doctor'' ''sockA''
               (run_ops (take 1 reconnect_trace) initial_state) = (Some s', st')
          \<and> \<not> both_connected s' \<and> status s' = status s0"
    using c0 c cn C by blast
  have W4: "\<exists>s0 s1 st1. getSession ''DEMO-1'' (run_ops (take 3 reconnect_trace) initial_state) = Some s0
          \<and> removeUserFromSession 3 ''sockA'' (run_ops (take 3 reconnect_trace) initial_state)
              = (Some (''DEMO-1'', s1), st1)
          \<and> \<not> neither_connected s1 \<and> status s1 = status s0 \<and> status s1 = ''active''"
    using s d dn D D' by blast
  have W5: "\<exists>s0 s1 st1. getSession ''DEMO-1'' (run_ops reconnect_trace initial_state) = Some s0
          \<and> removeUserFromSession 4 ''sockB'' (run_ops reconnect_trace initial_state)
              = (Some (''DEMO-1'', s1), st1)
          \<and> neither_connected s1 \<and> status s1 = ''ended''"
    using e0 e en E by blast
  have W6: "\<exists>s0. session_of ''sockA'' joined_state = Some (''DEMO-1'', s0)
          \<and> map_option status
               (getSession ''DEMO-1'' (fst (start_recording 10 ''sockA'' doctor_cmd joined_state)))
              = Some ''recording''"
    using f0 F by blast
  have W7: "\<exists>s0. session_of ''sockA'' recording_state = Some (''DEMO-1'', s0) \<and> isRecording s0
          \<and> map_option status
               (getSession ''DEMO-1'' (fst (stop_recording_begin 20 ''sockA'' doctor_cmd recording_state)))
              = Some ''completed''"
    using g0 gr G by blast
  show ?thesis by (intro conjI W1 W2 W3 W4 W5 W6 W7)
qed

text \<open>
  C4, as stated, fails in its first half: \<open>start-recording\<close> has no guard on
  \<open>isRecording\<close>. Sent again by the doctor while the session records, it emits no
  error, broadcasts \<open>recording-started\<close> again and overwrites the recording start time.
\<close>

theorem restart_while_recording:
  "snd (start_recording 20 ''sockA'' doctor_cmd recording_state)
     = [(IoTo ''DEMO-1'', RecordingStarted ''Alice'' 20)]
   \<and> map_option isRecording (getSession ''DEMO-1'' recording_state) = Some True
   \<and> map_option recordingStartTime (getSession ''DEMO-1'' recording_state) = Some (Some 10)
   \<and> map_option recordingStartTime
        (getSession ''DEMO-1'' (fst (start_recording 20 ''sockA'' doctor_cmd recording_state)))
       = Some (Some 20)"
  by (simp add: handler_eval)

text \<open>
  The recording commands write the status themselves: while the session records, both
  participants are attached and the status is \<open>'recording'\<close>.
\<close>

lemma recording_overwrites_status:
  "map_option status (getSession ''DEMO-1'' recording_state) = Some ''recording''
   \<and> map_option both_connected (getSession ''DEMO-1'' recording_state) = Some True"
  by (simp add: handler_eval)

text \<open>
  C4, amended. For a command from a tracked connection that declares the doctor role:
  \<open>start-recording\<close> while the session is already recording is accepted like any other
  (the only emission is the \<open>recording-started\<close> broadcast, and the session is
  recording with a new start time); \<open>stop-recording\<close> while the session is idle emits
  only the error \<open>Session is not currently recording\<close> to the caller, and the session
  differs from before only by the caller's re-attachment: \<open>isRecording\<close>, the recording
  times, the transcript and the stored document are unchanged.
\<close>

theorem recording_guards:
  assumes "session_of sock st = Some (sessionId, s)" and "d_userRole d = Some ''doctor''"
  shows "(isRecording s \<longrightarrow>
            snd (start_recording now sock d st)
              = [(IoTo sessionId, RecordingStarted (or_default (d_userName d) ''Doctor'') now)]
          \<and> (\<exists>s'. getSession sessionId (fst (start_recording now sock d st)) = Some s'
                 \<and> isRecording s' \<and> status s' = ''recording''
                 \<and> recordingStartTime s' = Some now))
       \<and> (\<not> isRecording s \<longrightarrow>
            snd (stop_recording_begin now sock d st)
              = Finished [(SocketEmit sock, ErrorEvent ''Session is not currently recording'')]
          \<and> (\<exists>s'. getSession sessionId (fst (stop_recording_begin now sock d st)) = Some s'
                 \<and> s' = attach_slot now ''doctor'' sock (detach_slot now sock s)
                 \<and> isRecording s' = isRecording s
                 \<and> recordingStartTime s' = recordingStartTime s
                 \<and> recordingEndTime s' = recordingEndTime s
                 \<and> transcript s' = transcript s
                 \<and> merDocument s' = merDocument s))"
  by (simp add: start_recording_doctor[OF assms] stop_recording_begin_doctor[OF assms]
        attach_slot_keeps detach_slot_keeps)

theorem recording_guards_witness:
  "(\<exists>s. session_of ''sockA'' recording_state = Some (''DEMO-1'', s) \<and> isRecording s
        \<and> snd (start_recording 20 ''sockA'' doctor_cmd recording_state)
             = [(IoTo ''DEMO-1'', RecordingStarted ''Alice'' 20)])
   \<and> (\<exists>s. session_of ''sockA'' joined_state = Some (''DEMO-1'', s) \<and> \<not> isRecording s
        \<and> snd (stop_recording_begin 20 ''sockA'' doctor_cmd joined_state)
             = Finished [(SocketEmit ''sockA'',
                          ErrorEvent ''Session is not currently recording'')])"
proof -
  have role: "d_userRole doctor_cmd = Some ''doctor''" by (simp add: doctor_cmd_def)
  have name: "or_default (d_userName doctor_cmd) ''Doctor'' = ''Alice''"
    by (simp add: doctor_cmd_def or_default_def)
  obtain s where s: "session_of ''sockA'' recording_state = Some (''DEMO-1'', s)"
    and r: "isRecording s"
    by (simp add: handler_eval)
  obtain s0 where s0: "session_of ''sockA'' joined_state = Some (''DEMO-1'', s0)"
    and r0: "\<not> isRecording s0"
    by (simp add: handler_eval)
  show ?thesis
    using recording_guards[OF s role, of 20] recording_guards[OF s0 role, of 20] s r s0 r0 name
    by simp
qed

lemma stop_recording_begin_cases:
  "emitted (snd (stop_recording_begin now sock d st)) =
     (case session_of sock st of
        None \<Rightarrow> []
      | Some (sessionId, s) \<Rightarrow>
          if d_userRole d \<noteq> Some ''doctor''
          then [(SocketEmit sock, ErrorEvent ''Only doctors can stop recording'')]
          else if \<not> isRecording s
          then [(SocketEmit sock, ErrorEvent ''Session is not currently recording'')]
          else if transcript s \<noteq> [] then []
          else [recording_stopped sessionId d
                 ((attach_slot now ''doctor'' sock (detach_slot now sock s))
                       \<lparr>isRecording := False, status := ''completed'',
                        recordingEndTime := Some now\<rparr>)])"
  by (simp add: stop_recording_begin_def reattach_eq doctor_role Let_def
        attach_slot_keeps detach_slot_keeps split: option.splits)

text \<open>
  C7, as stated, fails: the role check comes first, so a \<open>stop-recording\<close> from the
  patient while the session is idle is answered with \<open>Only doctors can stop recording\<close>,
  not with the not-recording error. (A connection that is not tracked gets no answer at
  all.)
\<close>

theorem patient_stop_while_idle:
  "map_option isRecording (getSession ''DEMO-1'' joined_state) = Some False
   \<and> emitted (snd (stop_recording_begin 20 ''sockB'' patient_cmd joined_state))
       = [(SocketEmit ''sockB'', ErrorEvent ''Only doctors can stop recording'')]"
  by (simp add: handler_eval)

text \<open>
  C7, amended. A \<open>stop-recording\<close> command is answered with the error
  \<open>Session is not currently recording\<close> if and only if it comes from a connection
  tracked in a registered session, declares the doctor role, and that session is not
  recording when the command arrives.
\<close>

theorem stop_rejected_iff_not_recording:
  "(SocketEmit sock, ErrorEvent ''Session is not currently recording'')
      \<in> set (emitted (snd (stop_recording_begin now sock d st)))
   \<longleftrightarrow> (\<exists>sessionId s. session_of sock st = Some (sessionId, s)
                       \<and> d_userRole d = Some ''doctor'' \<and> \<not> isRecording s)"
proof (cases "session_of sock st")
  case None
  then show ?thesis by (simp add: stop_recording_begin_cases)
next
  case (Some p)
  obtain sessionId s where p: "p = (sessionId, s)" by (cases p)
  show ?thesis using Some p by (auto simp: stop_recording_begin_cases recording_stopped_def)
qed


theorem stop_rejected_iff_not_recording_witness:
  "(SocketEmit ''sockA'', ErrorEvent ''Session is not currently recording'')
      \<in> set (emitted (snd (stop_recording_begin 20 ''sockA'' doctor_cmd joined_state)))
   \<and> (SocketEmit ''sockA'', ErrorEvent ''Session is not currently recording'')
      \<notin> set (emitted (snd (stop_recording_begin 30 ''sockA'' doctor_cmd transcribed_state)))"
proof -
  have role: "d_userRole doctor_cmd = Some ''doctor''" by (simp add: doctor_cmd_def)
  obtain s0 where s0: "session_of ''sockA'' joined_state = Some (''DEMO-1'', s0)"
    and r0: "\<not> isRecording s0"
    by (simp add: handler_eval)
  obtain s where s: "session_of ''sockA'' transcribed_state = Some (''DEMO-1'', s)"
    and r: "isRecording s"
    by (simp add: handler_eval)
  show ?thesis
    using stop_rejected_iff_not_recording[of "''sockA''" 20 doctor_cmd joined_state]
      stop_rejected_iff_not_recording[of "''sockA''" 30 doctor_cmd transcribed_state]
      s0 r0 s r role
    by auto
qed



lemma recording_stopped_is:
  "is_recording_stopped room (recording_stopped sessionId d s) = (sessionId = room)"
  by (simp add: recording_stopped_def)

lemma stop_recording_resume_last:
  "snd (stop_recording_resume now' sock d sessionId held outcome st1) \<noteq> []
   \<and> is_recording_stopped sessionId (last (snd (stop_recording_resume now' sock d sessionId held outcome st1)))
   \<and> filter (is_recording_stopped sessionId)
        (snd (stop_recording_resume now' sock d sessionId held outcome st1))
       = [last (snd (stop_recording_resume now' sock d sessionId held outcome st1))]"
  by (cases outcome)
     (auto simp: stop_recording_resume_def Let_def recording_stopped_is split: option.splits)

text \<open>
  C5, as stated, fails: the handler awaits the generator before it broadcasts. When the
  doctor stops a recording with a non-empty transcript, the handler has made the state
  transition and is suspended at the generator call without having emitted anything; the
  \<open>recording-stopped\<close> broadcast is the last emission of the continuation.
\<close>

theorem broadcast_waits_for_generator:
  "suspended (snd (stop_recording_begin 30 ''sockA'' doctor_cmd transcribed_state))
   \<and> emitted (snd (stop_recording_begin 30 ''sockA'' doctor_cmd transcribed_state)) = []
   \<and> map_option isRecording
        (getSession ''DEMO-1'' (fst (stop_recording_begin 30 ''sockA'' doctor_cmd transcribed_state)))
       = Some False
   \<and> snd (stop_recording_continue 35 ''sockA'' doctor_cmd
             (snd (stop_recording_begin 30 ''sockA'' doctor_cmd transcribed_state))
             (Inr (MerDocument ''summary''))
             (fst (stop_recording_begin 30 ''sockA'' doctor_cmd transcribed_state)))
       = [(IoTo ''sockA'', MerGenerated (MerDocument ''summary'') 35),
          (IoTo ''DEMO-1'', RecordingStopped ''Alice'' (Some 30) (Some 20) 1)]"
  by (simp add: handler_eval)

text \<open>
  C5, amended. When an accepted \<open>stop-recording\<close> arrives (tracked connection, doctor
  role, session recording), the state transition (\<open>isRecording = false\<close>, status
  \<open>'completed'\<close>, end time) is complete before the generator is invoked. With a non-empty
  transcript the handler then suspends on the generator, which is given the full
  transcript, and has emitted nothing; whatever the generator's outcome, the continuation
  ends with the \<open>recording-stopped\<close> broadcast to the session's room. With an empty
  transcript no generation is invoked and the broadcast is emitted at once.
\<close>

theorem stop_recording_awaits_generation:
  assumes "session_of sock st = Some (sessionId, s)" and "d_userRole d = Some ''doctor''"
    and "isRecording s"
  shows "(\<exists>s'. getSession sessionId (fst (stop_recording_begin now sock d st)) = Some s'
               \<and> \<not> isRecording s' \<and> status s' = ''completed''
               \<and> recordingEndTime s' = Some now \<and> transcript s' = transcript s)
       \<and> (transcript s \<noteq> [] \<longrightarrow>
             suspended (snd (stop_recording_begin now sock d st))
           \<and> emitted (snd (stop_recording_begin now sock d st)) = []
           \<and> map_option mr_transcript (requested (snd (stop_recording_begin now sock d st)))
               = Some (transcript s))
       \<and> (transcript s = [] \<longrightarrow>
             \<not> suspended (snd (stop_recording_begin now sock d st))
           \<and> (\<exists>e. emitted (snd (stop_recording_begin now sock d st)) = [e]
                  \<and> is_recording_stopped sessionId e))
       \<and> (\<forall>now' held outcome st1.
             snd (stop_recording_resume now' sock d sessionId held outcome st1) \<noteq> []
           \<and> is_recording_stopped sessionId
               (last (snd (stop_recording_resume now' sock d sessionId held outcome st1))))"
  using stop_recording_resume_last
  by (simp add: stop_recording_begin_doctor[OF assms(1,2)] assms(3) Let_def
        attach_slot_keeps detach_slot_keeps recording_stopped_is)


theorem stop_recording_awaits_generation_witness:
  "\<exists>s. session_of ''sockA'' transcribed_state = Some (''DEMO-1'', s) \<and> isRecording s
       \<and> transcript s \<noteq> []
       \<and> suspended (snd (stop_recording_begin 30 ''sockA'' doctor_cmd transcribed_state))
       \<and> emitted (snd (stop_recording_begin 30 ''sockA'' doctor_cmd transcribed_state)) = []"
proof -
  have role: "d_userRole doctor_cmd = Some ''doctor''" by (simp add: doctor_cmd_def)
  obtain s where s: "session_of ''sockA'' transcribed_state = Some (''DEMO-1'', s)"
    and r: "isRecording s" and t: "transcript s \<noteq> []"
    by (simp add: handler_eval)
  from stop_recording_awaits_generation[OF s role r, of 30] s r t show ?thesis by blast
qed

section \<open>Joining a session\<close>













section \<open>Delivery of the generated document\<close>

lemma held_session_update:
  "held_session sessionId held (st\<lparr>activeSessions := AList.update sessionId s A, sessionUsers := U\<rparr>) = s"
  by (simp add: held_session_def update_conv')

lemma store_held_update:
  "store_held sessionId s' (st\<lparr>activeSessions := AList.update sessionId s A, sessionUsers := U\<rparr>)
     = st\<lparr>activeSessions := AList.update sessionId s' A, sessionUsers := U\<rparr>"
  by (simp add: store_held_def update_conv')












lemmas delivery_eval =
  handler_eval switched_cmd_def pending_request_def role_switch_def delivered_def
  roleless_cmd_def impostor_cmd_def pending_stop_def patient_command_def stop_delivered_def


lemma document_to_patient_connection:
  "map_option (socketId \<circ> patient) (getSession ''DEMO-1'' transcribed_state) = Some (Some ''sockB'')
   \<and> suspended (snd pending_stop)
   \<and> snd patient_command = [(SocketEmit ''sockB'', ErrorEvent ''Only doctors can start recording'')]
   \<and> map_option (socketId \<circ> doctor) (getSession ''DEMO-1'' (fst patient_command))
       = Some (Some ''sockB'')
   \<and> hd (snd stop_delivered) = (IoTo ''sockB'', MerGenerated (MerDocument ''summary'') 35)"
  by (simp add: delivery_eval)



section \<open>The transcription gateway and the audio buffer\<close>

lemmas service_eval =
  processAudioChunk_def processAudioChunk_in_def transcribeBufferedAudio_def
  transcribeBufferedAudio_in_def transcribe_unit_def resolve_def lookup_method_def
  service_module_def module_bindings_def mock_class_methods_def
  new_buffer_def buffer_of_def push_chunk_def reset_buffer_def shouldProcess_def demo_config_def
  failing_env_def fragment_def empty_service_def buffered_def one_fragment_def two_fragments_def
  Let_def

lemma mockAIService_unbound:
  "lookup_method service_module ''mockAIService'' method
     = Inl (ReferenceError ''mockAIService is not defined'')"
  by (simp add: lookup_method_def resolve_def service_module_def module_bindings_def)

lemma shouldUseMockTranscription_undefined:
  "lookup_method service_module ''MockAIService'' ''shouldUseMockTranscription''
     = Inl (TypeError ''MockAIService.shouldUseMockTranscription is not a function'')"
  by (simp add: lookup_method_def resolve_def service_module_def module_bindings_def
        mock_class_methods_def)

lemma transcribeBufferedAudio_raises:
  assumes "map_of (audioBuffer svc) sessionId = Some b" and "chunks b \<noteq> []"
  shows "transcribeBufferedAudio cfg env sessionId svc
           = Inl (ReferenceError ''mockAIService is not defined'')"
  using assms
  by (simp add: transcribeBufferedAudio_def transcribeBufferedAudio_in_def transcribe_unit_def
        mockAIService_unbound Let_def)

lemma processAudioChunk_raises:
  "processAudioChunk cfg env now now' audioChunk speaker sessionId ts svc
     = (Inl (TypeError ''MockAIService.shouldUseMockTranscription is not a function''), svc)"
  by (simp add: processAudioChunk_def processAudioChunk_in_def
        shouldUseMockTranscription_undefined)

text \<open>
  C2. The gateway reads the identifier \<open>mockAIService\<close> before anything else, and the
  module binds \<open>MockAIService\<close>: with one fragment buffered, both providers configured
  and failing, \<open>transcribeBufferedAudio\<close> raises a \<open>ReferenceError\<close> instead of
  returning the fallback segment. (\<open>transcribeBufferedAudio_raises\<close>: so it does for
  every non-empty buffer. \<open>gateway_falls_back_when_bound\<close>: with the identifier bound,
  it always returns a segment, the mock's when every provider of the chain fails.)
\<close>

theorem gateway_raises_at_every_flush:
  "transcribeBufferedAudio demo_config failing_env ''DEMO-1'' one_fragment
     = Inl (ReferenceError ''mockAIService is not defined'')"
  by (simp add: service_eval)

lemma periodic_processing_single:
  "audioBuffer svc = [(sessionId, b)] \<Longrightarrow>
   periodic_processing cfg env clock_at svc
     = periodic_entry service_module cfg env (fst (clock_at sessionId)) (snd (clock_at sessionId))
         sessionId svc"
  by (simp add: periodic_processing_def periodic_processing_in_def)

lemma two_fragments_buffer:
  "audioBuffer two_fragments =
     [(''DEMO-1'',
       \<lparr>chunks = [\<lparr>chunk_data = fragment, chunk_timestamp = 1000, chunk_speaker = Some ''patient''\<rparr>,
                  \<lparr>chunk_data = fragment, chunk_timestamp = 1200, chunk_speaker = Some ''doctor''\<rparr>],
        lastProcessed = 1000, totalSize = 2400\<rparr>)]"
  by (simp add: two_fragments_def one_fragment_def buffered_def empty_service_def buffer_of_def
        new_buffer_def push_chunk_def fragment_def)

text \<open>
  C6. A flush submits nothing and clears nothing. Two fragments have been waiting in
  the buffer of \<open>DEMO-1\<close> since 1000. The timer's flush at 10000 calls the gateway, the
  gateway raises the \<open>ReferenceError\<close> of C2 before it has handed the audio unit to any
  provider, the timer's \<open>catch\<close> drops the error, and the statements that reset the
  buffer have been skipped: the buffer holds the two fragments and their 2400 bytes as
  before. A third fragment does not reach the flush of \<open>processAudioChunk\<close> either:
  the call of \<open>MockAIService.shouldUseMockTranscription\<close>, which the mock class does
  not define, raises a \<open>TypeError\<close> before the fragment is buffered.
  (\<open>flush_clears_when_linked\<close>: in a module that links the mock class, every flush
  clears the buffer; \<open>repaired_flush_clears\<close>: so do these two.
  \<open>third_fragment_keeps_buffer\<close>: with the method defined and the identifier unbound,
  the third fragment's flush raises and keeps the three fragments.)
\<close>

theorem flush_raises_and_keeps_buffer:
  "transcribeBufferedAudio demo_config failing_env ''DEMO-1'' two_fragments
     = Inl (ReferenceError ''mockAIService is not defined'')
   \<and> periodic_processing demo_config failing_env timer_clock two_fragments = two_fragments
   \<and> map_option (length \<circ> chunks) (map_of (audioBuffer two_fragments) ''DEMO-1'') = Some 2
   \<and> map_option totalSize (map_of (audioBuffer two_fragments) ''DEMO-1'') = Some 2400
   \<and> map_option lastProcessed (map_of (audioBuffer two_fragments) ''DEMO-1'') = Some 1000
   \<and> processAudioChunk demo_config failing_env 1400 1450 fragment (Some ''patient'')
        ''DEMO-1'' 1400 two_fragments
     = (Inl (TypeError ''MockAIService.shouldUseMockTranscription is not a function''),
        two_fragments)"
proof -
  have g: "transcribeBufferedAudio_in service_module demo_config failing_env ''DEMO-1'' two_fragments
             = Inl (ReferenceError ''mockAIService is not defined'')"
    using transcribeBufferedAudio_raises[of two_fragments "''DEMO-1''" _ demo_config failing_env]
    by (simp add: two_fragments_buffer transcribeBufferedAudio_def)
  have p: "periodic_processing demo_config failing_env timer_clock two_fragments = two_fragments"
    by (simp add: periodic_processing_single[OF two_fragments_buffer] periodic_entry_def g
          two_fragments_buffer timer_clock_def)
  show ?thesis
    using g p by (simp add: transcribeBufferedAudio_def processAudioChunk_raises two_fragments_buffer)
qed

lemma mock_via_linked:
  "links_mock scope ident \<Longrightarrow>
   mock_via scope ident env audio speaker = Inr (Some (generateMockTranscription env audio speaker))"
  by (simp add: mock_via_def lookup_method_def resolve_def links_mock_def)

lemma lookup_linked:
  "links_mock scope ident \<Longrightarrow> lookup_method scope ident ''shouldUseMockTranscription'' = Inr ()"
  by (simp add: lookup_method_def resolve_def links_mock_def)

lemma try_provider_returns:
  assumes "links_mock scope ''mockAIService''"
  shows "try_provider scope cfg env provider audio speaker \<noteq> Inr None"
  using assms
  by (auto simp: try_provider_def mock_via_linked returned_def split: sum.splits)

lemma provider_loop_returns:
  assumes "links_mock scope ''mockAIService''"
  shows "\<exists>seg. provider_loop scope cfg env lastProvider audio speaker ps = Inr (Some seg)"
proof (induction ps)
  case Nil
  show ?case by (simp add: mock_via_linked[OF assms])
next
  case (Cons p ps)
  show ?case
  proof (cases "try_provider scope cfg env p audio speaker")
    case (Inl e)
    then show ?thesis using Cons by (simp add: mock_via_linked[OF assms])
  next
    case (Inr r)
    with try_provider_returns[OF assms, of cfg env p audio speaker]
    obtain seg where "r = Some seg" by (cases r) auto
    with Inr show ?thesis by simp
  qed
qed

lemma provider_loop_all_fail:
  assumes "links_mock scope ''mockAIService''"
    and "\<forall>p \<in> set ps. \<exists>e. try_provider scope cfg env p audio speaker = Inl e"
  shows "provider_loop scope cfg env lastProvider audio speaker ps
           = Inr (Some (generateMockTranscription env audio speaker))"
  using assms(2)
proof (induction ps)
  case Nil
  show ?case by (simp add: mock_via_linked[OF assms(1)])
next
  case (Cons p ps)
  then obtain e where "try_provider scope cfg env p audio speaker = Inl e" by auto
  then show ?case using Cons by (simp add: mock_via_linked[OF assms(1)])
qed

lemma mock_well_formed:
  assumes "0 \<le> randomIndex env" and "randomIndex env < 12"
  shows "\<exists>phrase. t_text (generateMockTranscription env audio speaker) = Some phrase
           \<and> phrase \<in> set mockTranscriptions"
    and "t_confidence (generateMockTranscription env audio speaker) = 0.95"
    and "t_provider (generateMockTranscription env audio speaker) = ''mock''"
    and "t_speaker (generateMockTranscription env audio speaker) \<noteq> None"
proof -
  have len: "length mockTranscriptions = 12" by (simp add: mockTranscriptions_def)
  show "\<exists>phrase. t_text (generateMockTranscription env audio speaker) = Some phrase
           \<and> phrase \<in> set mockTranscriptions"
  proof -
    have "nat (randomIndex env) < 12" using assms by linarith
    then have idx: "nat (randomIndex env) < length mockTranscriptions"
      by (simp only: len)
    show ?thesis
      using assms nth_mem[OF idx] by (simp add: generateMockTranscription_def js_index_def len)
  qed
  show "t_confidence (generateMockTranscription env audio speaker) = 0.95"
    and "t_provider (generateMockTranscription env audio speaker) = ''mock''"
    and "t_speaker (generateMockTranscription env audio speaker) \<noteq> None"
    by (simp_all add: generateMockTranscription_def)
qed

lemma provider_chain_all_fail_cases:
  "set (provider_chain active) \<subseteq> {active, ''openai'', ''elevenlabs''}"
  by (auto simp: provider_chain_def)

lemma transcribe_unit_returns:
  assumes "links_mock scope ''mockAIService''"
  shows "\<exists>seg. transcribe_unit scope active cfg env audio speaker = Inr (Some seg)"
  using provider_loop_returns[OF assms]
  by (simp add: transcribe_unit_def lookup_linked[OF assms] mock_via_linked[OF assms])

lemma gateway_falls_back_when_bound:
  assumes "links_mock scope ''mockAIService''"
    and "map_of (audioBuffer svc) sessionId = Some b" and "chunks b \<noteq> []"
  shows "\<exists>seg. transcribeBufferedAudio_in scope cfg env sessionId svc = Inr (Some seg)"
    and "\<not> useMockTranscription env \<Longrightarrow>
         \<forall>p \<in> set (provider_chain (activeProvider svc)).
            \<exists>e. try_provider scope cfg env p (concat (map chunk_data (chunks b)))
                   (chunk_speaker (last (chunks b))) = Inl e
         \<Longrightarrow> transcribeBufferedAudio_in scope cfg env sessionId svc
               = Inr (Some (generateMockTranscription env (concat (map chunk_data (chunks b)))
                              (chunk_speaker (last (chunks b)))))"
  using assms transcribe_unit_returns[OF assms(1)]
  by (simp_all add: transcribeBufferedAudio_in_def transcribe_unit_def lookup_linked Let_def
        mock_via_linked provider_loop_all_fail)

lemma reset_buffer_eq:
  "reset_buffer now' b = \<lparr>chunks = [], lastProcessed = now', totalSize = 0\<rparr>"
  by (cases b) (simp add: reset_buffer_def)

lemma flush_outcome_lemma:
  assumes "lookup_method scope ''MockAIService'' ''shouldUseMockTranscription'' = Inr ()"
    and "\<not> useMockTranscription env"
    and "b = buffer_of now sessionId svc"
    and "shouldProcess cfg now (push_chunk audioChunk ts speaker b)"
  shows "processAudioChunk_in scope cfg env now now' audioChunk speaker sessionId ts svc =
          (case transcribe_unit scope (activeProvider svc) cfg env
                  (concat (map chunk_data (chunks b)) @ audioChunk) speaker of
             Inl e \<Rightarrow>
               (Inl e,
                svc\<lparr>audioBuffer :=
                      AList.update sessionId (push_chunk audioChunk ts speaker b) (audioBuffer svc)\<rparr>)
           | Inr r \<Rightarrow>
               (Inr r,
                svc\<lparr>audioBuffer :=
                      AList.update sessionId
                        \<lparr>chunks = [], lastProcessed = now', totalSize = 0\<rparr> (audioBuffer svc)\<rparr>))"
  using assms
  by (simp add: processAudioChunk_in_def Let_def transcribeBufferedAudio_in_def
        update_conv' push_chunk_def reset_buffer_eq split: sum.splits)

lemma periodic_outcome_lemma:
  assumes "map_of (audioBuffer svc) sessionId = Some b" and "chunks b \<noteq> []"
    and "now - lastProcessed b > 8000"
  shows "periodic_entry scope cfg env now now' sessionId svc =
          (case transcribe_unit scope (activeProvider svc) cfg env
                  (concat (map chunk_data (chunks b))) (chunk_speaker (last (chunks b))) of
             Inl e \<Rightarrow> svc
           | Inr r \<Rightarrow>
               svc\<lparr>audioBuffer :=
                     AList.update sessionId
                       \<lparr>chunks = [], lastProcessed = now', totalSize = 0\<rparr> (audioBuffer svc)\<rparr>)"
  using assms
  by (simp add: periodic_entry_def Let_def transcribeBufferedAudio_in_def reset_buffer_eq
        split: sum.splits)

text \<open>
  In a module that links the mock class under both identifiers, every flush hands the
  gateway the buffered fragments concatenated in arrival order, tagged with the speaker
  of the most recent one, gets a segment back, and clears the buffer.
\<close>

lemma flush_clears_when_linked:
  assumes "links_mock scope ''MockAIService''" and "links_mock scope ''mockAIService''"
  shows "\<not> useMockTranscription env \<Longrightarrow>
         shouldProcess cfg now (push_chunk audioChunk ts speaker (buffer_of now sessionId svc)) \<Longrightarrow>
         \<exists>seg. transcribe_unit scope (activeProvider svc) cfg env
                  (concat (map chunk_data (chunks (buffer_of now sessionId svc))) @ audioChunk)
                  speaker = Inr (Some seg)
              \<and> processAudioChunk_in scope cfg env now now' audioChunk speaker sessionId ts svc =
                  (Inr (Some seg),
                   svc\<lparr>audioBuffer :=
                         AList.update sessionId
                           \<lparr>chunks = [], lastProcessed = now', totalSize = 0\<rparr> (audioBuffer svc)\<rparr>)"
    and "map_of (audioBuffer svc) sessionId = Some b \<Longrightarrow> chunks b \<noteq> [] \<Longrightarrow>
         now - lastProcessed b > 8000 \<Longrightarrow>
         \<exists>seg. transcribe_unit scope (activeProvider svc) cfg env
                  (concat (map chunk_data (chunks b))) (chunk_speaker (last (chunks b)))
                = Inr (Some seg)
              \<and> periodic_entry scope cfg env now now' sessionId svc =
                  svc\<lparr>audioBuffer :=
                        AList.update sessionId
                          \<lparr>chunks = [], lastProcessed = now', totalSize = 0\<rparr> (audioBuffer svc)\<rparr>"
proof -
  assume u: "\<not> useMockTranscription env"
    and sp: "shouldProcess cfg now (push_chunk audioChunk ts speaker (buffer_of now sessionId svc))"
  obtain seg where seg: "transcribe_unit scope (activeProvider svc) cfg env
                  (concat (map chunk_data (chunks (buffer_of now sessionId svc))) @ audioChunk)
                  speaker = Inr (Some seg)"
    using transcribe_unit_returns[OF assms(2)] by blast
  show "\<exists>seg. transcribe_unit scope (activeProvider svc) cfg env
                  (concat (map chunk_data (chunks (buffer_of now sessionId svc))) @ audioChunk)
                  speaker = Inr (Some seg)
              \<and> processAudioChunk_in scope cfg env now now' audioChunk speaker sessionId ts svc =
                  (Inr (Some seg),
                   svc\<lparr>audioBuffer :=
                         AList.update sessionId
                           \<lparr>chunks = [], lastProcessed = now', totalSize = 0\<rparr> (audioBuffer svc)\<rparr>)"
    using flush_outcome_lemma[where now'=now', OF lookup_linked[OF assms(1)] u refl sp] seg
    by simp
next
  assume b: "map_of (audioBuffer svc) sessionId = Some b" and ne: "chunks b \<noteq> []"
    and old: "now - lastProcessed b > 8000"
  obtain seg where seg: "transcribe_unit scope (activeProvider svc) cfg env
                  (concat (map chunk_data (chunks b))) (chunk_speaker (last (chunks b)))
                = Inr (Some seg)"
    using transcribe_unit_returns[OF assms(2)] by blast
  show "\<exists>seg. transcribe_unit scope (activeProvider svc) cfg env
                  (concat (map chunk_data (chunks b))) (chunk_speaker (last (chunks b)))
                = Inr (Some seg)
              \<and> periodic_entry scope cfg env now now' sessionId svc =
                  svc\<lparr>audioBuffer :=
                        AList.update sessionId
                          \<lparr>chunks = [], lastProcessed = now', totalSize = 0\<rparr> (audioBuffer svc)\<rparr>"
    using periodic_outcome_lemma[where now'=now' and scope=scope and cfg=cfg and env=env, OF b ne old] seg by simp
qed

lemma repaired_module_links:
  "links_mock repaired_module ''MockAIService''" "links_mock repaired_module ''mockAIService''"
  by (simp_all add: links_mock_def repaired_module_def module_bindings_def mock_class_methods_def)

text \<open>
  With the method \<open>shouldUseMockTranscription\<close> defined and answering no, and the
  identifier of the gateway left unbound, the third fragment reaches the fragment-count
  trigger, the gateway raises, and the buffer keeps the three fragments and their 3600
  bytes.
\<close>

lemma third_fragment_keeps_buffer:
  "processAudioChunk_in (service_module\<lparr>mock_methods := ''shouldUseMockTranscription'' # mock_class_methods\<rparr>)
      demo_config failing_env 1400 1450 fragment (Some ''patient'') ''DEMO-1'' 1400 two_fragments
     = (Inl (ReferenceError ''mockAIService is not defined''),
        buffered 1400 fragment (Some ''patient'') ''DEMO-1'' two_fragments)"
  "map_option (length \<circ> chunks)
     (map_of (audioBuffer (buffered 1400 fragment (Some ''patient'') ''DEMO-1'' two_fragments))
        ''DEMO-1'') = Some 3"
  "map_option totalSize
     (map_of (audioBuffer (buffered 1400 fragment (Some ''patient'') ''DEMO-1'' two_fragments))
        ''DEMO-1'') = Some 3600"
  by (simp_all add: service_eval)

text \<open>
  In the repaired module the timer's flush of the two waiting fragments, and the flush
  that a third fragment triggers, get the mock's segment from the gateway after both
  providers have failed, and clear the buffer.
\<close>

lemma repaired_flush_clears:
  "periodic_processing_in repaired_module demo_config failing_env timer_clock two_fragments
     = two_fragments\<lparr>audioBuffer :=
         [(''DEMO-1'', \<lparr>chunks = [], lastProcessed = 10050, totalSize = 0\<rparr>)]\<rparr>"
  "\<exists>seg. processAudioChunk_in repaired_module demo_config failing_env 1400 1450 fragment
            (Some ''patient'') ''DEMO-1'' 1400 two_fragments
          = (Inr (Some seg),
             two_fragments\<lparr>audioBuffer :=
               [(''DEMO-1'', \<lparr>chunks = [], lastProcessed = 1450, totalSize = 0\<rparr>)]\<rparr>)
        \<and> t_provider seg = ''mock'' \<and> t_speaker seg = Some ''patient''
        \<and> t_text seg = Some ''No, just the burning pain.''"
proof -
  have u: "\<not> useMockTranscription failing_env" by (simp add: failing_env_def)
  have b: "map_of (audioBuffer two_fragments) ''DEMO-1''
             = Some \<lparr>chunks = [\<lparr>chunk_data = fragment, chunk_timestamp = 1000, chunk_speaker = Some ''patient''\<rparr>,
                  \<lparr>chunk_data = fragment, chunk_timestamp = 1200, chunk_speaker = Some ''doctor''\<rparr>],
        lastProcessed = 1000, totalSize = 2400\<rparr>"
    by (simp add: two_fragments_buffer)
  have fails: "\<forall>p \<in> set (provider_chain (activeProvider two_fragments)).
            \<exists>e. try_provider repaired_module demo_config failing_env p audio speaker = Inl e"
    for audio speaker
    by (simp add: service_eval provider_chain_def try_provider_def transcribeWithOpenAI_def
          transcribeWithElevenLabs_def returned_def truthy_def or_default_def prefix_def)
  have unit: "transcribe_unit repaired_module (activeProvider two_fragments) demo_config failing_env
                audio speaker = Inr (Some (generateMockTranscription failing_env audio speaker))"
    for audio speaker
    using provider_loop_all_fail[OF repaired_module_links(2) fails[of audio speaker]] u
    by (simp add: transcribe_unit_def lookup_linked[OF repaired_module_links(2)])
  have sp: "shouldProcess demo_config 1400
              (push_chunk fragment 1400 (Some ''patient'') (buffer_of 1400 ''DEMO-1'' two_fragments))"
    by (simp add: shouldProcess_def push_chunk_def buffer_of_def b)
  show "periodic_processing_in repaired_module demo_config failing_env timer_clock two_fragments
     = two_fragments\<lparr>audioBuffer :=
         [(''DEMO-1'', \<lparr>chunks = [], lastProcessed = 10050, totalSize = 0\<rparr>)]\<rparr>"
    using periodic_outcome_lemma[OF b, of 10000 repaired_module demo_config failing_env 10050]
    by (simp add: periodic_processing_in_def two_fragments_buffer timer_clock_def unit)
  show "\<exists>seg. processAudioChunk_in repaired_module demo_config failing_env 1400 1450 fragment
            (Some ''patient'') ''DEMO-1'' 1400 two_fragments
          = (Inr (Some seg),
             two_fragments\<lparr>audioBuffer :=
               [(''DEMO-1'', \<lparr>chunks = [], lastProcessed = 1450, totalSize = 0\<rparr>)]\<rparr>)
        \<and> t_provider seg = ''mock'' \<and> t_speaker seg = Some ''patient''
        \<and> t_text seg = Some ''No, just the burning pain.''"
  proof -
    have seg: "t_provider (generateMockTranscription failing_env audio (Some ''patient'')) = ''mock''"
      "t_speaker (generateMockTranscription failing_env audio (Some ''patient'')) = Some ''patient''"
      "t_text (generateMockTranscription failing_env audio (Some ''patient''))
         = Some ''No, just the burning pain.''"
      for audio
      by (simp_all add: generateMockTranscription_def or_default_def failing_env_def js_index_def
            mockTranscriptions_def)
    show ?thesis
      using flush_outcome_lemma[where now'=1450, OF lookup_linked[OF repaired_module_links(1)] u refl sp]
      by (simp add: unit two_fragments_buffer seg)
  qed
qed

end
